theory Spec2Isabelle
  imports Main "HOL-Library.Word"
begin

section \<open>The Authenticode verifier of tgbverifiermodule.c\<close>

text \<open>
  The module \<^verbatim>\<open>tgbverifiermodule.c\<close> orchestrates calls into the Windows trust
  subsystem (\<^verbatim>\<open>WinVerifyTrust\<close>, \<^verbatim>\<open>CryptQueryObject\<close>, \<^verbatim>\<open>CryptMsgGetParam\<close>, ...).
  The embedding below keeps that split: the C functions of the module are HOL functions,
  and every platform call they make is a field of a record of oracles that takes the
  state of the world and returns its answer together with the next state of the world.
  Nothing is assumed about the oracles, so a statement proved for every platform and
  every world holds whatever the operating system answers.

  The module is the ANSI build of its source: \<^verbatim>\<open>tgb_is_signed\<close> hands a
  \<^verbatim>\<open>const char*\<close> to the \<^verbatim>\<open>LPCTSTR\<close> parameters and compares the subject name with narrow
  literals through \<^verbatim>\<open>_tcsncicmp\<close>, which is type correct only when \<^verbatim>\<open>UNICODE\<close> is not
  defined. So the \<^verbatim>\<open>#else\<close> branches of the two \<^verbatim>\<open>#ifdef UNICODE\<close> blocks are the ones
  embedded, \<^verbatim>\<open>TCHAR\<close> is \<^verbatim>\<open>char\<close>, and \<^verbatim>\<open>sizeof(TCHAR)\<close> is 1.
\<close>

subsection \<open>Machine types and the constants of the Windows headers\<close>

type_synonym BYTE = "8 word"
type_synonym DWORD = "32 word"
type_synonym LONG = "32 word"
type_synonym WCHAR = "16 word"
type_synonym HANDLE = nat

text \<open>\<^verbatim>\<open>MAX_PATH\<close> of \<^verbatim>\<open>windef.h\<close>.\<close>

definition MAX_PATH :: nat where
  "MAX_PATH = 260"

text \<open>The status codes of \<^verbatim>\<open>winerror.h\<close> that the \<^verbatim>\<open>switch\<close> names.\<close>

definition ERROR_SUCCESS :: LONG where
  "ERROR_SUCCESS = 0"

definition TRUST_E_NOSIGNATURE :: LONG where
  "TRUST_E_NOSIGNATURE = 0x800B0100"

definition TRUST_E_EXPLICIT_DISTRUST :: LONG where
  "TRUST_E_EXPLICIT_DISTRUST = 0x800B0111"

definition TRUST_E_SUBJECT_NOT_TRUSTED :: LONG where
  "TRUST_E_SUBJECT_NOT_TRUSTED = 0x800B0004"

definition CRYPT_E_SECURITY_SETTINGS :: LONG where
  "CRYPT_E_SECURITY_SETTINGS = 0x80092026"

definition TRUST_E_BAD_DIGEST :: LONG where
  "TRUST_E_BAD_DIGEST = 0x80096010"

definition CERT_E_CHAINING :: LONG where
  "CERT_E_CHAINING = 0x800B010A"

text \<open>The flags of \<^verbatim>\<open>wintrust.h\<close> and \<^verbatim>\<open>wincrypt.h\<close> that the module passes.\<close>

definition WTD_UI_NONE :: DWORD where
  "WTD_UI_NONE = 2"

definition WTD_REVOKE_NONE :: DWORD where
  "WTD_REVOKE_NONE = 0"

definition WTD_CHOICE_FILE :: DWORD where
  "WTD_CHOICE_FILE = 1"

definition WTD_CACHE_ONLY_URL_RETRIEVAL :: DWORD where
  "WTD_CACHE_ONLY_URL_RETRIEVAL = 0x1000"

definition CERT_NAME_ISSUER_FLAG :: DWORD where
  "CERT_NAME_ISSUER_FLAG = 1"

definition SPC_SP_OPUS_INFO_OBJID :: string where
  "SPC_SP_OPUS_INFO_OBJID = ''1.3.6.1.4.1.311.2.1.12''"

text \<open>The error codes of the C runtime that \<^verbatim>\<open>mbstowcs_s\<close> returns.\<close>

definition EILSEQ :: nat where
  "EILSEQ = 42"

definition STRUNCATE :: nat where
  "STRUNCATE = 80"

definition sizeof_TCHAR :: nat where
  "sizeof_TCHAR = 1"

definition sizeof_WCHAR :: nat where
  "sizeof_WCHAR = 2"

subsection \<open>The structures\<close>

text \<open>
  \<^verbatim>\<open>WINTRUST_DATA\<close> with the \<^verbatim>\<open>WINTRUST_FILE_INFO\<close> it points to: the fields the module
  sets to something else than zero or \<^verbatim>\<open>NULL\<close>, and the two it comments on.
\<close>

record WINTRUST_DATA =
  dwUIChoice :: DWORD
  fdwRevocationChecks :: DWORD
  dwUnionChoice :: DWORD
  pcwszFilePath :: "WCHAR list"
  dwStateAction :: DWORD
  dwUIContext :: DWORD
  dwProvFlags :: DWORD

text \<open>
  An authenticated attribute. The module reads the object identifier and the first value
  \<^verbatim>\<open>rgValue[0]\<close> only; the signer-info record comes decoded from the platform, with at
  least one value in each attribute.
\<close>

record CRYPT_ATTRIBUTE =
  pszObjId :: string
  rgValue0 :: "BYTE list"

record CMSG_SIGNER_INFO =
  Issuer :: "BYTE list"
  SerialNumber :: "BYTE list"
  AuthAttrs :: "CRYPT_ATTRIBUTE list"

text \<open>
  \<^verbatim>\<open>SPC_LINK\<close> is a tagged union: \<^verbatim>\<open>dwLinkChoice\<close> selects the URL, the file or another
  variant (the moniker, or any tag the module does not name).
\<close>

datatype SPC_LINK =
    SPC_URL_LINK_CHOICE "WCHAR list"
  | SPC_FILE_LINK_CHOICE "WCHAR list"
  | SPC_OTHER_LINK_CHOICE DWORD

record SPC_SP_OPUS_INFO =
  pwszProgramName :: "WCHAR list option"
  pPublisherInfo :: "SPC_LINK option"
  pMoreInfo :: "SPC_LINK option"

text \<open>The certificate context: its handle and \<^verbatim>\<open>pCertInfo->SerialNumber\<close>.\<close>

record CERT_CONTEXT =
  hCertContext :: HANDLE
  certSerialNumber :: "BYTE list"

text \<open>\<^verbatim>\<open>SPROG_SIGNATUREINFO\<close>: a pointer field is \<open>None\<close> when it is \<^verbatim>\<open>NULL\<close>.\<close>

record SPROG_SIGNATUREINFO =
  lpszProgramName :: "WCHAR list option"
  lpszPublisherLink :: "WCHAR list option"
  lpszMoreInfoLink :: "WCHAR list option"
  cbSerialSize :: DWORD
  lpSerialNumber :: "BYTE list option"
  lpszIssuerName :: "string option"
  lpszSubjectName :: "string option"

text \<open>\<^verbatim>\<open>ZeroMemory(&SignInfo, sizeof(SignInfo))\<close>.\<close>

definition ZeroMemory_SignInfo :: SPROG_SIGNATUREINFO where
  "ZeroMemory_SignInfo =
     \<lparr>lpszProgramName = None, lpszPublisherLink = None, lpszMoreInfoLink = None,
      cbSerialSize = 0, lpSerialNumber = None, lpszIssuerName = None,
      lpszSubjectName = None\<rparr>"

subsection \<open>The platform\<close>

text \<open>
  Each field is one entry point of the operating system, as the module calls it. A call
  takes the world and returns its answer and the world after it.
  \<^item> \<open>mb_decode\<close> is the multibyte decoding of the current locale that \<^verbatim>\<open>mbstowcs_s\<close>
    applies (\<open>None\<close>: an invalid multibyte sequence).
  \<^item> \<open>WinVerifyTrust\<close> returns the status \<^verbatim>\<open>lStatus\<close>.
  \<^item> \<open>CryptQueryObject\<close> returns the store and message handles, or \<open>None\<close> for \<^verbatim>\<open>FALSE\<close>.
  \<^item> \<open>CryptMsgGetParam_size\<close> is the call with a \<^verbatim>\<open>NULL\<close> buffer: the size it stores in
    \<^verbatim>\<open>dwSignerInfo\<close>, or \<open>None\<close> for \<^verbatim>\<open>FALSE\<close>. \<open>CryptMsgGetParam_data\<close> is the call
    with a buffer of the given size: the record it decodes into it, or \<open>None\<close>.
  \<^item> \<open>CryptDecodeObject_size\<close> and \<open>CryptDecodeObject_data\<close>: the same two phases for the
    opus-info attribute.
  \<^item> \<open>LocalAlloc\<close> and \<open>VirtualAlloc\<close> answer whether the pointer is not \<^verbatim>\<open>NULL\<close>.
  \<^item> \<open>CertFindCertificateInStore\<close> takes the store, the issuer and the serial number.
  \<^item> \<open>CertGetNameString\<close> takes the certificate, the flags and the buffer length
    (\<open>None\<close> for the call with a \<^verbatim>\<open>NULL\<close> buffer) and returns the count together with
    the string the buffer holds after the call.
\<close>

record 'w platform =
  mb_decode :: "string \<Rightarrow> WCHAR list option"
  WinVerifyTrust :: "WINTRUST_DATA \<Rightarrow> 'w \<Rightarrow> LONG \<times> 'w"
  CryptQueryObject :: "WCHAR list \<Rightarrow> 'w \<Rightarrow> (HANDLE \<times> HANDLE) option \<times> 'w"
  CryptMsgGetParam_size :: "HANDLE \<Rightarrow> 'w \<Rightarrow> DWORD option \<times> 'w"
  CryptMsgGetParam_data :: "HANDLE \<Rightarrow> DWORD \<Rightarrow> 'w \<Rightarrow> CMSG_SIGNER_INFO option \<times> 'w"
  CryptDecodeObject_size :: "BYTE list \<Rightarrow> 'w \<Rightarrow> DWORD option \<times> 'w"
  CryptDecodeObject_data :: "BYTE list \<Rightarrow> DWORD \<Rightarrow> 'w \<Rightarrow> SPC_SP_OPUS_INFO option \<times> 'w"
  LocalAlloc :: "nat \<Rightarrow> 'w \<Rightarrow> bool \<times> 'w"
  VirtualAlloc :: "nat \<Rightarrow> 'w \<Rightarrow> bool \<times> 'w"
  CertFindCertificateInStore ::
    "HANDLE \<Rightarrow> BYTE list \<Rightarrow> BYTE list \<Rightarrow> 'w \<Rightarrow> CERT_CONTEXT option \<times> 'w"
  CertGetNameString ::
    "CERT_CONTEXT \<Rightarrow> DWORD \<Rightarrow> DWORD option \<Rightarrow> 'w \<Rightarrow> (DWORD \<times> string) \<times> 'w"

subsection \<open>The C runtime\<close>

text \<open>
  \<^verbatim>\<open>mbstowcs_s(&RetSize, wszFileName, sizeInWords, src, _TRUNCATE)\<close>: the error code and
  the string in the buffer afterwards. An invalid sequence resets the buffer to the empty
  string; a source that does not fit with its terminator is cut to \<open>sizeInWords - 1\<close>
  characters and reported as \<^verbatim>\<open>STRUNCATE\<close>.
\<close>

definition mbstowcs_s_TRUNCATE :: "'w platform \<Rightarrow> nat \<Rightarrow> string \<Rightarrow> nat \<times> WCHAR list" where
  "mbstowcs_s_TRUNCATE P sizeInWords src =
     (case mb_decode P src of
        None \<Rightarrow> (EILSEQ, [])
      | Some ws \<Rightarrow>
          if length ws + 1 > sizeInWords then (STRUNCATE, take (sizeInWords - 1) ws)
          else (0, ws))"

text \<open>\<^verbatim>\<open>tolower\<close> in the C locale.\<close>

definition tolower :: "char \<Rightarrow> char" where
  "tolower c =
     (if 65 \<le> (of_char c :: nat) \<and> (of_char c :: nat) \<le> 90
      then char_of (of_char c + 32 :: nat) else c)"

text \<open>
  \<^verbatim>\<open>_strnicmp\<close> on two strings that are not \<^verbatim>\<open>NULL\<close>: at most \<open>count\<close> characters are
  compared in lower case, and the end of a string is its terminating zero.
\<close>

fun strnicmp :: "string \<Rightarrow> string \<Rightarrow> nat \<Rightarrow> int" where
  "strnicmp lhs rhs 0 = 0"
| "strnicmp [] [] (Suc n) = 0"
| "strnicmp [] (r # rhs) (Suc n) = - int (of_char (tolower r))"
| "strnicmp (l # lhs) [] (Suc n) = int (of_char (tolower l))"
| "strnicmp (l # lhs) (r # rhs) (Suc n) =
     (if tolower l = tolower r then strnicmp lhs rhs n
      else int (of_char (tolower l)) - int (of_char (tolower r)))"

text \<open>
  \<^verbatim>\<open>_tcsncicmp\<close> as \<^verbatim>\<open>tgb_is_signed\<close> calls it, with a first argument that may be
  \<^verbatim>\<open>NULL\<close>. The runtime validates its arguments: a \<^verbatim>\<open>NULL\<close> string raises the invalid
  parameter fault, which is \<open>None\<close> here.
\<close>

definition tcsncicmp :: "string option \<Rightarrow> string \<Rightarrow> nat \<Rightarrow> int option" where
  "tcsncicmp string1 string2 count =
     (case string1 of None \<Rightarrow> None | Some s \<Rightarrow> Some (strnicmp s string2 count))"

subsection \<open>SD_VerifyEmbeddedSignature\<close>

text \<open>The \<^verbatim>\<open>WINTRUST_DATA\<close> that one pass of the loop builds.\<close>

definition WinTrustData :: "WCHAR list \<Rightarrow> bool \<Rightarrow> WINTRUST_DATA" where
  "WinTrustData wszFileName DoSecondPass =
     \<lparr>dwUIChoice = WTD_UI_NONE,
      fdwRevocationChecks = WTD_REVOKE_NONE,
      dwUnionChoice = WTD_CHOICE_FILE,
      pcwszFilePath = wszFileName,
      dwStateAction = 0,
      dwUIContext = 0,
      dwProvFlags = (if DoSecondPass = False then WTD_CACHE_ONLY_URL_RETRIEVAL else 0)\<rparr>"

text \<open>
  The \<^verbatim>\<open>switch (lStatus)\<close>: the value of \<^verbatim>\<open>DoSecondPass\<close> after it. The call of
  \<^verbatim>\<open>GetLastError\<close> under \<^verbatim>\<open>TRUST_E_NOSIGNATURE\<close> selects between two empty branches.
\<close>

definition switch_lStatus :: "LONG \<Rightarrow> bool \<Rightarrow> bool" where
  "switch_lStatus lStatus DoSecondPass =
     (if lStatus = ERROR_SUCCESS then DoSecondPass
      else if lStatus = TRUST_E_NOSIGNATURE then DoSecondPass
      else if lStatus = TRUST_E_EXPLICIT_DISTRUST then DoSecondPass
      else if lStatus = TRUST_E_SUBJECT_NOT_TRUSTED then DoSecondPass
      else if lStatus = CRYPT_E_SECURITY_SETTINGS then DoSecondPass
      else if lStatus = TRUST_E_BAD_DIGEST then DoSecondPass
      else if lStatus = CERT_E_CHAINING then True
      else True)"

text \<open>
  The \<^verbatim>\<open>do ... while ((DoSecondPass == TRUE) && (Count < 2))\<close> loop, entered with the
  current \<^verbatim>\<open>DoSecondPass\<close> and \<^verbatim>\<open>Count\<close> (an \<^verbatim>\<open>unsigned int\<close>).
\<close>

function do_while :: "'w platform \<Rightarrow> WCHAR list \<Rightarrow> bool \<Rightarrow> 32 word \<Rightarrow> 'w \<Rightarrow> LONG \<times> 'w" where
  "do_while P wszFileName DoSecondPass Count w =
     (case WinVerifyTrust P (WinTrustData wszFileName DoSecondPass) w of
        (lStatus, w1) \<Rightarrow>
          if switch_lStatus lStatus DoSecondPass = True \<and> Count + 1 < 2
          then do_while P wszFileName (switch_lStatus lStatus DoSecondPass) (Count + 1) w1
          else (lStatus, w1))"
  by pat_completeness auto

lemma Count_wraps:
  fixes Count :: "32 word"
  assumes "Count + 1 < 2"
  shows "Count = - 1 \<or> Count = 0"
proof -
  from assms have "unat (Count + 1) < 2"
    by (simp add: word_less_nat_alt)
  then have "unat (Count + 1) = unat (0 :: 32 word) \<or> unat (Count + 1) = unat (1 :: 32 word)"
    by auto
  then have "Count + 1 = 0 \<or> Count + 1 = 1"
    by (simp only: word_unat_eq_iff)
  then show ?thesis
  proof
    assume "Count + 1 = 0"
    then have "Count = - 1" by (simp add: eq_neg_iff_add_eq_0)
    then show ?thesis ..
  next
    assume "Count + 1 = 1"
    then have "Count = 0" by simp
    then show ?thesis ..
  qed
qed

lemma Count_decreases:
  fixes Count :: "32 word"
  assumes "Count + 1 < 2"
  shows "unat (- Count) < unat (1 - Count)"
  using Count_wraps [OF assms] by auto

termination do_while
  by (relation "measure (\<lambda>(P, wszFileName, DoSecondPass, Count, w). unat (1 - Count))")
     (auto simp: Count_decreases)

definition SD_VerifyEmbeddedSignature :: "'w platform \<Rightarrow> string \<Rightarrow> 'w \<Rightarrow> LONG \<times> 'w" where
  "SD_VerifyEmbeddedSignature P pszSourceFile w =
     (case mbstowcs_s_TRUNCATE P MAX_PATH pszSourceFile of
        (RetCode, wszFileName) \<Rightarrow> do_while P wszFileName False 0 w)"

subsection \<open>GetProgAndPublisherInfo\<close>

text \<open>
  \<^verbatim>\<open>AllocateAndCopyWideString\<close>: the copy, or \<^verbatim>\<open>NULL\<close> when \<^verbatim>\<open>LocalAlloc\<close> fails.
\<close>

definition AllocateAndCopyWideString ::
  "'w platform \<Rightarrow> WCHAR list \<Rightarrow> 'w \<Rightarrow> WCHAR list option \<times> 'w" where
  "AllocateAndCopyWideString P inputString w =
     (case LocalAlloc P ((length inputString + 1) * sizeof_WCHAR) w of
        (outputString, w1) \<Rightarrow> (if outputString then Some inputString else None, w1))"

text \<open>
  The \<^verbatim>\<open>if (link) switch (link->dwLinkChoice)\<close> block, which the function has once for
  \<^verbatim>\<open>pPublisherInfo\<close> and once for \<^verbatim>\<open>pMoreInfo\<close>: the value it assigns to the field.
\<close>

definition switch_dwLinkChoice ::
  "'w platform \<Rightarrow> SPC_LINK option \<Rightarrow> 'w \<Rightarrow> WCHAR list option \<times> 'w" where
  "switch_dwLinkChoice P link w =
     (case link of
        None \<Rightarrow> (None, w)
      | Some (SPC_URL_LINK_CHOICE pwszUrl) \<Rightarrow> AllocateAndCopyWideString P pwszUrl w
      | Some (SPC_FILE_LINK_CHOICE pwszFile) \<Rightarrow> AllocateAndCopyWideString P pwszFile w
      | Some (SPC_OTHER_LINK_CHOICE tag) \<Rightarrow> (None, w))"

text \<open>
  The body of the loop for the attribute whose identifier is the opus-info one. Each
  \<^verbatim>\<open>__leave\<close> ends the function with \<^verbatim>\<open>pInfo\<close> as it is.
\<close>

definition opus_attribute ::
  "'w platform \<Rightarrow> CRYPT_ATTRIBUTE \<Rightarrow> SPROG_SIGNATUREINFO \<Rightarrow> 'w \<Rightarrow> SPROG_SIGNATUREINFO \<times> 'w" where
  "opus_attribute P attr pInfo w =
     (case CryptDecodeObject_size P (rgValue0 attr) w of
        (None, w1) \<Rightarrow> (pInfo, w1)
      | (Some dwData, w1) \<Rightarrow>
          (case LocalAlloc P (unat dwData) w1 of
             (False, w2) \<Rightarrow> (pInfo, w2)
           | (True, w2) \<Rightarrow>
               (case CryptDecodeObject_data P (rgValue0 attr) dwData w2 of
                  (None, w3) \<Rightarrow> (pInfo, w3)
                | (Some OpusInfo, w3) \<Rightarrow>
                    (case (case pwszProgramName OpusInfo of
                             Some name \<Rightarrow> AllocateAndCopyWideString P name w3
                           | None \<Rightarrow> (None, w3)) of
                       (ProgramName, w4) \<Rightarrow>
                         (case switch_dwLinkChoice P (pPublisherInfo OpusInfo) w4 of
                            (PublisherLink, w5) \<Rightarrow>
                              (case switch_dwLinkChoice P (pMoreInfo OpusInfo) w5 of
                                 (MoreInfoLink, w6) \<Rightarrow>
                                   (pInfo\<lparr>lpszProgramName := ProgramName,
                                          lpszPublisherLink := PublisherLink,
                                          lpszMoreInfoLink := MoreInfoLink\<rparr>, w6)))))))"

text \<open>
  The \<^verbatim>\<open>for\<close> loop over \<^verbatim>\<open>AuthAttrs.rgAttr\<close>: the first attribute with the opus-info
  identifier is decoded and ends the loop.
\<close>

fun for_rgAttr ::
  "'w platform \<Rightarrow> CRYPT_ATTRIBUTE list \<Rightarrow> SPROG_SIGNATUREINFO \<Rightarrow> 'w \<Rightarrow> SPROG_SIGNATUREINFO \<times> 'w" where
  "for_rgAttr P [] pInfo w = (pInfo, w)"
| "for_rgAttr P (attr # rgAttr) pInfo w =
     (if pszObjId attr = SPC_SP_OPUS_INFO_OBJID then opus_attribute P attr pInfo w
      else for_rgAttr P rgAttr pInfo w)"

definition GetProgAndPublisherInfo ::
  "'w platform \<Rightarrow> CMSG_SIGNER_INFO \<Rightarrow> SPROG_SIGNATUREINFO \<Rightarrow> 'w \<Rightarrow> SPROG_SIGNATUREINFO \<times> 'w" where
  "GetProgAndPublisherInfo P pSignerInfo pInfo w = for_rgAttr P (AuthAttrs pSignerInfo) pInfo w"

subsection \<open>GetCertificateInfo\<close>

text \<open>
  A structured exception that no handler of the module catches (the module has
  \<^verbatim>\<open>__finally\<close> blocks only) ends the call: \<open>Fault\<close>. Otherwise the function returns.
\<close>

datatype 'a outcome = Fault | Returns 'a

text \<open>
  One of the two inner \<^verbatim>\<open>__try\<close> blocks, for the issuer (\<^verbatim>\<open>CERT_NAME_ISSUER_FLAG\<close>) and
  for the subject (flags 0): the value of the name field after the block, given its value
  before. A zero length leaves the block before the field is assigned; the field is then
  assigned the result of \<^verbatim>\<open>VirtualAlloc\<close>, and the second \<^verbatim>\<open>CertGetNameString\<close> writes
  into that buffer, after which both ways out of the block leave the field as it is.
\<close>

definition try_CertGetNameString ::
  "'w platform \<Rightarrow> CERT_CONTEXT \<Rightarrow> DWORD \<Rightarrow> string option \<Rightarrow> 'w \<Rightarrow> string option \<times> 'w" where
  "try_CertGetNameString P pCertContext dwFlags lpszName w =
     (case CertGetNameString P pCertContext dwFlags None w of
        ((dwData, unused), w1) \<Rightarrow>
          if dwData = 0 then (lpszName, w1)
          else
            (case VirtualAlloc P (unat dwData * sizeof_TCHAR) w1 of
               (False, w2) \<Rightarrow> (None, w2)
             | (True, w2) \<Rightarrow>
                 (case CertGetNameString P pCertContext dwFlags (Some dwData) w2 of
                    ((copied, buffer), w3) \<Rightarrow> (Some buffer, w3))))"

text \<open>
  The function returns nothing (\<^verbatim>\<open>VOID\<close>): a certificate that is not found leaves
  \<^verbatim>\<open>pInfo\<close> as it is. The result of \<^verbatim>\<open>VirtualAlloc\<close> for the serial number is not
  tested, so \<^verbatim>\<open>memcpy\<close> writes \<open>dwData\<close> bytes through \<^verbatim>\<open>NULL\<close> when the allocation
  failed.
\<close>

definition GetCertificateInfo ::
  "'w platform \<Rightarrow> HANDLE \<Rightarrow> CMSG_SIGNER_INFO \<Rightarrow> SPROG_SIGNATUREINFO \<Rightarrow> 'w
     \<Rightarrow> SPROG_SIGNATUREINFO outcome \<times> 'w" where
  "GetCertificateInfo P hStore pSignerInfo pInfo w =
     (case CertFindCertificateInStore P hStore (Issuer pSignerInfo) (SerialNumber pSignerInfo) w of
        (None, w1) \<Rightarrow> (Returns pInfo, w1)
      | (Some pCertContext, w1) \<Rightarrow>
          (let dwData = (of_nat (length (certSerialNumber pCertContext)) :: DWORD) in
           case VirtualAlloc P (unat dwData) w1 of
             (lpSerial, w2) \<Rightarrow>
               if \<not> lpSerial \<and> dwData \<noteq> 0 then (Fault, w2)
               else
                 (case try_CertGetNameString P pCertContext CERT_NAME_ISSUER_FLAG
                         (lpszIssuerName pInfo) w2 of
                    (IssuerName, w3) \<Rightarrow>
                      (case try_CertGetNameString P pCertContext 0 (lpszSubjectName pInfo) w3 of
                         (SubjectName, w4) \<Rightarrow>
                           (Returns
                              (pInfo\<lparr>cbSerialSize := dwData,
                                     lpSerialNumber :=
                                       (if lpSerial
                                        then Some (take (unat dwData) (certSerialNumber pCertContext))
                                        else None),
                                     lpszIssuerName := IssuerName,
                                     lpszSubjectName := SubjectName\<rparr>), w4)))))"

subsection \<open>SD_GetAuthenticodeInformation\<close>

text \<open>
  \<^verbatim>\<open>bRet\<close> and \<^verbatim>\<open>*pInfo\<close> at the \<^verbatim>\<open>return\<close>. Every \<^verbatim>\<open>__leave\<close> returns \<^verbatim>\<open>FALSE\<close>; after
  the signer-info record is fetched the two \<^verbatim>\<open>VOID\<close> helpers run and \<^verbatim>\<open>bRet\<close> is set to
  \<^verbatim>\<open>TRUE\<close>. The handles and buffers released in the \<^verbatim>\<open>__finally\<close> blocks are not read
  again.
\<close>

definition SD_GetAuthenticodeInformation ::
  "'w platform \<Rightarrow> string \<Rightarrow> SPROG_SIGNATUREINFO \<Rightarrow> 'w
     \<Rightarrow> (bool \<times> SPROG_SIGNATUREINFO) outcome \<times> 'w" where
  "SD_GetAuthenticodeInformation P lpszFileName pInfo w =
     (case mbstowcs_s_TRUNCATE P MAX_PATH lpszFileName of
        (RetCode, wszFileName) \<Rightarrow>
          if RetCode \<noteq> 0 then (Returns (False, pInfo), w)
          else
            (case CryptQueryObject P wszFileName w of
               (None, w1) \<Rightarrow> (Returns (False, pInfo), w1)
             | (Some (hStore, hMsg), w1) \<Rightarrow>
                 (case CryptMsgGetParam_size P hMsg w1 of
                    (None, w2) \<Rightarrow> (Returns (False, pInfo), w2)
                  | (Some dwSignerInfo, w2) \<Rightarrow>
                      (case LocalAlloc P (unat dwSignerInfo) w2 of
                         (False, w3) \<Rightarrow> (Returns (False, pInfo), w3)
                       | (True, w3) \<Rightarrow>
                           (case CryptMsgGetParam_data P hMsg dwSignerInfo w3 of
                              (None, w4) \<Rightarrow> (Returns (False, pInfo), w4)
                            | (Some pSignerInfo, w4) \<Rightarrow>
                                (case GetProgAndPublisherInfo P pSignerInfo pInfo w4 of
                                   (pInfo1, w5) \<Rightarrow>
                                     (case GetCertificateInfo P hStore pSignerInfo pInfo1 w5 of
                                        (Fault, w6) \<Rightarrow> (Fault, w6)
                                      | (Returns pInfo2, w6) \<Rightarrow>
                                          (Returns (True, pInfo2), w6))))))))"

subsection \<open>tgb_is_signed\<close>

text \<open>
  The argument is the result of \<^verbatim>\<open>PyArg_ParseTuple(args, "s", &path)\<close>: the path, or
  \<open>None\<close> when the arguments are not one string. The function returns \<^verbatim>\<open>NULL\<close> or a
  Python boolean.
\<close>

datatype PyObject = PyNULL | PyBool_FromLong bool

definition tgb_is_signed :: "'w platform \<Rightarrow> string option \<Rightarrow> 'w \<Rightarrow> PyObject outcome \<times> 'w" where
  "tgb_is_signed P args w =
     (case args of
        None \<Rightarrow> (Returns PyNULL, w)
      | Some path \<Rightarrow>
          (case SD_VerifyEmbeddedSignature P path w of
             (lStatus, w1) \<Rightarrow>
               if lStatus = ERROR_SUCCESS then
                 (case SD_GetAuthenticodeInformation P path ZeroMemory_SignInfo w1 of
                    (Fault, w2) \<Rightarrow> (Fault, w2)
                  | (Returns (bRet, SignInfo), w2) \<Rightarrow>
                      if bRet then
                        (case tcsncicmp (lpszSubjectName SignInfo) ''TheGreenBow'' 11 of
                           None \<Rightarrow> (Fault, w2)
                         | Some c1 \<Rightarrow>
                             if c1 = 0 then (Returns (PyBool_FromLong True), w2)
                             else
                               (case tcsncicmp (lpszSubjectName SignInfo) ''SISTECH'' 7 of
                                  None \<Rightarrow> (Fault, w2)
                                | Some c2 \<Rightarrow>
                                    if c2 = 0 then (Returns (PyBool_FromLong True), w2)
                                    else (Returns (PyBool_FromLong False), w2)))
                      else (Returns (PyBool_FromLong False), w2))
               else (Returns (PyBool_FromLong False), w1)))"

subsection \<open>The platform calls of a run\<close>

text \<open>
  To speak about which platform calls a run makes, in which order and with which
  arguments, a platform is wrapped so that its world carries the list of the calls made
  so far. The wrapped platform answers as the platform does.
\<close>

datatype call =
    Call_WinVerifyTrust WINTRUST_DATA
  | Call_CryptQueryObject "WCHAR list"
  | Call_CryptMsgGetParam HANDLE "DWORD option"
  | Call_CryptDecodeObject "BYTE list" "DWORD option"
  | Call_LocalAlloc nat
  | Call_VirtualAlloc nat
  | Call_CertFindCertificateInStore HANDLE "BYTE list" "BYTE list"
  | Call_CertGetNameString CERT_CONTEXT DWORD "DWORD option"

definition record_call :: "call \<Rightarrow> ('w \<Rightarrow> 'a \<times> 'w) \<Rightarrow> 'w \<times> call list \<Rightarrow> 'a \<times> 'w \<times> call list" where
  "record_call c f s = (case s of (w, calls) \<Rightarrow> (case f w of (a, w1) \<Rightarrow> (a, w1, calls @ [c])))"

definition recording :: "'w platform \<Rightarrow> ('w \<times> call list) platform" where
  "recording P =
     \<lparr>mb_decode = mb_decode P,
      WinVerifyTrust = (\<lambda>d. record_call (Call_WinVerifyTrust d) (WinVerifyTrust P d)),
      CryptQueryObject = (\<lambda>f. record_call (Call_CryptQueryObject f) (CryptQueryObject P f)),
      CryptMsgGetParam_size =
        (\<lambda>h. record_call (Call_CryptMsgGetParam h None) (CryptMsgGetParam_size P h)),
      CryptMsgGetParam_data =
        (\<lambda>h n. record_call (Call_CryptMsgGetParam h (Some n)) (CryptMsgGetParam_data P h n)),
      CryptDecodeObject_size =
        (\<lambda>b. record_call (Call_CryptDecodeObject b None) (CryptDecodeObject_size P b)),
      CryptDecodeObject_data =
        (\<lambda>b n. record_call (Call_CryptDecodeObject b (Some n)) (CryptDecodeObject_data P b n)),
      LocalAlloc = (\<lambda>n. record_call (Call_LocalAlloc n) (LocalAlloc P n)),
      VirtualAlloc = (\<lambda>n. record_call (Call_VirtualAlloc n) (VirtualAlloc P n)),
      CertFindCertificateInStore =
        (\<lambda>h i n. record_call (Call_CertFindCertificateInStore h i n)
                   (CertFindCertificateInStore P h i n)),
      CertGetNameString =
        (\<lambda>c f n. record_call (Call_CertGetNameString c f n) (CertGetNameString P c f n))\<rparr>"

subsection \<open>The publisher policy of the specification\<close>

text \<open>
  The decision rule as the specification words it, to be compared with what
  \<^verbatim>\<open>tgb_is_signed\<close> computes: the trust result is Success and the subject name matches one
  of the allow-listed prefixes, case-insensitively, over the first N characters, N being
  the length of that prefix.
\<close>

definition isTrustedPublisher :: "LONG \<Rightarrow> string \<Rightarrow> string list \<Rightarrow> bool" where
  "isTrustedPublisher trustResult subjectName allowList =
     (trustResult = ERROR_SUCCESS \<and>
      (\<exists>prefix \<in> set allowList.
         map tolower (take (length prefix) subjectName) = map tolower prefix))"

subsection \<open>Platforms that answer alike\<close>

text \<open>
  The simulation of one platform by another: related worlds give the same answers and
  related next worlds, for every entry point.
\<close>

definition answers_alike :: "('w \<Rightarrow> 'v \<Rightarrow> bool) \<Rightarrow> ('a \<times> 'w) \<Rightarrow> ('a \<times> 'v) \<Rightarrow> bool" where
  "answers_alike R r r' = (fst r = fst r' \<and> R (snd r) (snd r'))"

definition simulates :: "('w \<Rightarrow> 'v \<Rightarrow> bool) \<Rightarrow> 'w platform \<Rightarrow> 'v platform \<Rightarrow> bool" where
  "simulates R P Q =
     (mb_decode P = mb_decode Q \<and>
      (\<forall>w v. R w v \<longrightarrow>
         (\<forall>d. answers_alike R (WinVerifyTrust P d w) (WinVerifyTrust Q d v)) \<and>
         (\<forall>f. answers_alike R (CryptQueryObject P f w) (CryptQueryObject Q f v)) \<and>
         (\<forall>h. answers_alike R (CryptMsgGetParam_size P h w) (CryptMsgGetParam_size Q h v)) \<and>
         (\<forall>h n. answers_alike R (CryptMsgGetParam_data P h n w) (CryptMsgGetParam_data Q h n v)) \<and>
         (\<forall>b. answers_alike R (CryptDecodeObject_size P b w) (CryptDecodeObject_size Q b v)) \<and>
         (\<forall>b n. answers_alike R (CryptDecodeObject_data P b n w) (CryptDecodeObject_data Q b n v)) \<and>
         (\<forall>n. answers_alike R (LocalAlloc P n w) (LocalAlloc Q n v)) \<and>
         (\<forall>n. answers_alike R (VirtualAlloc P n w) (VirtualAlloc Q n v)) \<and>
         (\<forall>h i n. answers_alike R (CertFindCertificateInStore P h i n w)
                     (CertFindCertificateInStore Q h i n v)) \<and>
         (\<forall>c f n. answers_alike R (CertGetNameString P c f n w) (CertGetNameString Q c f n v))))"

text \<open>
  A platform whose answers are determined by an observation \<open>obs\<close> of the world (the
  file and the trust store, say): worlds with the same observation are answered alike.
\<close>

definition determined_by :: "('w \<Rightarrow> 's) \<Rightarrow> 'w platform \<Rightarrow> bool" where
  "determined_by obs P = simulates (\<lambda>w v. obs w = obs v) P P"

subsection \<open>Sample platforms\<close>

text \<open>
  A scenario fixes what the platform answers about one file: the status of the cache-only
  and of the unrestricted \<^verbatim>\<open>WinVerifyTrust\<close>, the signer-info record, the decoded opus
  info, the signer's certificate in the store of the message, the display names, and
  whether memory can be allocated. The world of these platforms has one state.
\<close>

record scenario =
  cache_only_status :: LONG
  network_status :: LONG
  signer_info :: CMSG_SIGNER_INFO
  opus_info :: "SPC_SP_OPUS_INFO option"
  signer_certificate :: "CERT_CONTEXT option"
  issuer_name :: "string option"
  subject_name :: "string option"
  memory :: bool

text \<open>Decoding in the C locale: each byte is the wide character of the same value.\<close>

definition widen :: "string \<Rightarrow> WCHAR list" where
  "widen s = map (\<lambda>c. of_nat (of_char c)) s"

definition display_name :: "string option \<Rightarrow> DWORD option \<Rightarrow> DWORD \<times> string" where
  "display_name name cch =
     (case name of
        None \<Rightarrow> (0, [])
      | Some s \<Rightarrow> (of_nat (length s + 1), (case cch of None \<Rightarrow> [] | Some n \<Rightarrow> s)))"

definition platform_of :: "scenario \<Rightarrow> unit platform" where
  "platform_of sc =
     \<lparr>mb_decode = (\<lambda>s. Some (widen s)),
      WinVerifyTrust =
        (\<lambda>d w. (if dwProvFlags d = WTD_CACHE_ONLY_URL_RETRIEVAL then cache_only_status sc
                 else network_status sc, w)),
      CryptQueryObject = (\<lambda>f w. (Some (1, 2), w)),
      CryptMsgGetParam_size = (\<lambda>h w. (Some 64, w)),
      CryptMsgGetParam_data = (\<lambda>h n w. (Some (signer_info sc), w)),
      CryptDecodeObject_size = (\<lambda>b w. (map_option (\<lambda>i. 48) (opus_info sc), w)),
      CryptDecodeObject_data = (\<lambda>b n w. (opus_info sc, w)),
      LocalAlloc = (\<lambda>n w. (memory sc, w)),
      VirtualAlloc = (\<lambda>n w. (memory sc, w)),
      CertFindCertificateInStore = (\<lambda>h i n w. (signer_certificate sc, w)),
      CertGetNameString =
        (\<lambda>c f n w. (display_name (if f = CERT_NAME_ISSUER_FLAG then issuer_name sc
                                     else subject_name sc) n, w))\<rparr>"

text \<open>
  A file with a valid signature of TheGreenBow, whose chain is in the local cache, and
  no opus-info attribute.
\<close>

definition signed_file :: scenario where
  "signed_file =
     \<lparr>cache_only_status = ERROR_SUCCESS,
      network_status = ERROR_SUCCESS,
      signer_info =
        \<lparr>Issuer = [0x30, 0x0B], SerialNumber = [0x0A, 0x0B],
         AuthAttrs = [\<lparr>pszObjId = ''1.2.840.113549.1.9.3'', rgValue0 = [6, 1, 0]\<rparr>]\<rparr>,
      opus_info = None,
      signer_certificate = Some \<lparr>hCertContext = 3, certSerialNumber = [0x0A, 0x0B]\<rparr>,
      issuer_name = Some ''Sample Code Signing CA'',
      subject_name = Some ''TheGreenBow Networks'',
      memory = True\<rparr>"

text \<open>
  The same file with an opus-info attribute after another attribute: a program name, a
  publisher link whose choice is the moniker (neither a URL nor a file), and a URL for
  more information.
\<close>

definition signed_file_with_opus :: scenario where
  "signed_file_with_opus =
     signed_file
       \<lparr>signer_info :=
          \<lparr>Issuer = [0x30, 0x0B], SerialNumber = [0x0A, 0x0B],
           AuthAttrs =
             [\<lparr>pszObjId = ''1.2.840.113549.1.9.3'', rgValue0 = [6, 1, 0]\<rparr>,
              \<lparr>pszObjId = ''1.3.6.1.4.1.311.2.1.12'', rgValue0 = [0x30, 0]\<rparr>]\<rparr>,
        opus_info :=
          Some \<lparr>pwszProgramName = Some (widen ''VPN Client''),
                pPublisherInfo = Some (SPC_OTHER_LINK_CHOICE 2),
                pMoreInfo = Some (SPC_URL_LINK_CHOICE (widen ''https://example.org''))\<rparr>\<rparr>"

text \<open>
  The platform of the signed file on which each fetch of a display name fails: the length
  query answers 32 and the call with the buffer returns 0 and writes nothing.
\<close>

definition failing_fetch :: "unit platform" where
  "failing_fetch =
     (platform_of signed_file)
       \<lparr>CertGetNameString :=
          (\<lambda>c f n w. ((case n of None \<Rightarrow> 32 | Some cch \<Rightarrow> 0, []), w))\<rparr>"

text \<open>
  A platform whose world is the number of bytes that \<^verbatim>\<open>VirtualAlloc\<close> can still commit.
  Every other entry point answers as the platform of the scenario does, whatever the
  world, and leaves it as it is; \<^verbatim>\<open>LocalAlloc\<close> always succeeds. The module never calls
  \<^verbatim>\<open>VirtualFree\<close>, so nothing gives committed bytes back.
\<close>

definition commit_limited :: "scenario \<Rightarrow> nat platform" where
  "commit_limited sc =
     \<lparr>mb_decode = mb_decode (platform_of sc),
      WinVerifyTrust = (\<lambda>d w. (fst (WinVerifyTrust (platform_of sc) d ()), w)),
      CryptQueryObject = (\<lambda>f w. (fst (CryptQueryObject (platform_of sc) f ()), w)),
      CryptMsgGetParam_size = (\<lambda>h w. (fst (CryptMsgGetParam_size (platform_of sc) h ()), w)),
      CryptMsgGetParam_data =
        (\<lambda>h n w. (fst (CryptMsgGetParam_data (platform_of sc) h n ()), w)),
      CryptDecodeObject_size =
        (\<lambda>b w. (fst (CryptDecodeObject_size (platform_of sc) b ()), w)),
      CryptDecodeObject_data =
        (\<lambda>b n w. (fst (CryptDecodeObject_data (platform_of sc) b n ()), w)),
      LocalAlloc = (\<lambda>n w. (True, w)),
      VirtualAlloc = (\<lambda>n w. if 0 < n \<and> n \<le> w then (True, w - n) else (False, w)),
      CertFindCertificateInStore =
        (\<lambda>h i n w. (fst (CertFindCertificateInStore (platform_of sc) h i n ()), w)),
      CertGetNameString = (\<lambda>c f n w. (fst (CertGetNameString (platform_of sc) c f n ()), w))\<rparr>"

section \<open>Properties\<close>

subsection \<open>A recorded platform answers as the platform\<close>

lemma recording_mb_decode: "mb_decode (recording P) = mb_decode P"
  by (simp add: recording_def)

lemma recording_WinVerifyTrust:
  "WinVerifyTrust (recording P) d (w, cs) =
     (fst (WinVerifyTrust P d w), snd (WinVerifyTrust P d w), cs @ [Call_WinVerifyTrust d])"
  by (simp add: recording_def record_call_def split: prod.splits)

lemma recording_mbstowcs_s:
  "mbstowcs_s_TRUNCATE (recording P) n src = mbstowcs_s_TRUNCATE P n src"
  by (simp add: mbstowcs_s_TRUNCATE_def recording_mb_decode)

subsection \<open>The two passes of the trust verification\<close>

declare do_while.simps [simp del]

text \<open>
  Entered as the function enters it, the loop is one call, followed by a second one when
  the \<^verbatim>\<open>switch\<close> has set \<^verbatim>\<open>DoSecondPass\<close>; after the second call \<^verbatim>\<open>Count\<close> is 2.
\<close>

lemma do_while_unrolled:
  "do_while P f False 0 w =
     (case WinVerifyTrust P (WinTrustData f False) w of
        (lStatus, w1) \<Rightarrow>
          if switch_lStatus lStatus False then WinVerifyTrust P (WinTrustData f True) w1
          else (lStatus, w1))"
  by (subst do_while.simps, subst do_while.simps) (simp split: prod.splits)

lemma switch_lStatus_first:
  "switch_lStatus s False =
     (s \<notin> {ERROR_SUCCESS, TRUST_E_NOSIGNATURE, TRUST_E_EXPLICIT_DISTRUST,
            TRUST_E_SUBJECT_NOT_TRUSTED, CRYPT_E_SECURITY_SETTINGS, TRUST_E_BAD_DIGEST})"
  by (simp add: switch_lStatus_def)

text \<open>
  Claim C3. For every file, locale and world, the calls that the trust verification makes
  are: one \<^verbatim>\<open>WinVerifyTrust\<close> with the cache-only flag, and nothing else, when its status
  is one of \<^verbatim>\<open>ERROR_SUCCESS\<close> (Success), \<^verbatim>\<open>TRUST_E_NOSIGNATURE\<close> (NotSigned),
  \<^verbatim>\<open>TRUST_E_EXPLICIT_DISTRUST\<close> (ExplicitlyDistrusted), \<^verbatim>\<open>TRUST_E_SUBJECT_NOT_TRUSTED\<close>
  (UserDistrusted), \<^verbatim>\<open>CRYPT_E_SECURITY_SETTINGS\<close> (SecurityPolicyBlocked) and
  \<^verbatim>\<open>TRUST_E_BAD_DIGEST\<close> (SignatureInvalid); and that call followed by exactly one second
  \<^verbatim>\<open>WinVerifyTrust\<close> for every other first status, \<^verbatim>\<open>CERT_E_CHAINING\<close> included. So there
  are one or two attempts, never more, and an unsigned file gets one.
\<close>

theorem SD_VerifyEmbeddedSignature_attempts:
  "snd (snd (SD_VerifyEmbeddedSignature (recording P) path (w, []))) =
     (if fst (WinVerifyTrust P (WinTrustData (snd (mbstowcs_s_TRUNCATE P MAX_PATH path)) False) w)
           \<in> {ERROR_SUCCESS, TRUST_E_NOSIGNATURE, TRUST_E_EXPLICIT_DISTRUST,
               TRUST_E_SUBJECT_NOT_TRUSTED, CRYPT_E_SECURITY_SETTINGS, TRUST_E_BAD_DIGEST}
      then [Call_WinVerifyTrust (WinTrustData (snd (mbstowcs_s_TRUNCATE P MAX_PATH path)) False)]
      else [Call_WinVerifyTrust (WinTrustData (snd (mbstowcs_s_TRUNCATE P MAX_PATH path)) False),
            Call_WinVerifyTrust (WinTrustData (snd (mbstowcs_s_TRUNCATE P MAX_PATH path)) True)])"
  by (simp add: SD_VerifyEmbeddedSignature_def recording_mbstowcs_s do_while_unrolled
      recording_WinVerifyTrust switch_lStatus_first split: prod.splits)

subsection \<open>The comparison of the subject name\<close>

lemma strnicmp_prefix:
  assumes "\<forall>c\<in>set p. (of_char (tolower c) :: nat) \<noteq> 0"
  shows "strnicmp s p (length p) = 0 \<longleftrightarrow> map tolower (take (length p) s) = map tolower p"
  using assms
proof (induction p arbitrary: s)
  case Nil
  then show ?case by simp
next
  case (Cons r p)
  show ?case
  proof (cases s)
    case Nil
    with Cons.prems show ?thesis by simp
  next
    case (Cons l ls)
    with Cons.IH [of ls] Cons.prems show ?thesis by auto
  qed
qed

lemma length_TheGreenBow: "length ''TheGreenBow'' = 11"
  by simp

lemma length_SISTECH: "length ''SISTECH'' = 7"
  by simp

lemma strnicmp_TheGreenBow:
  "strnicmp s ''TheGreenBow'' 11 = 0 \<longleftrightarrow>
     map tolower (take 11 s) = map tolower ''TheGreenBow''"
proof -
  have "\<forall>c\<in>set ''TheGreenBow''. (of_char (tolower c) :: nat) \<noteq> 0"
    by (simp add: tolower_def)
  from strnicmp_prefix [OF this] show ?thesis
    unfolding length_TheGreenBow .
qed

lemma strnicmp_SISTECH:
  "strnicmp s ''SISTECH'' 7 = 0 \<longleftrightarrow> map tolower (take 7 s) = map tolower ''SISTECH''"
proof -
  have "\<forall>c\<in>set ''SISTECH''. (of_char (tolower c) :: nat) \<noteq> 0"
    by (simp add: tolower_def)
  from strnicmp_prefix [OF this] show ?thesis
    unfolding length_SISTECH .
qed

lemma Bex_two: "(\<exists>x\<in>set [a, b]. Q x) = (Q a \<or> Q b)"
  by simp

lemma isTrustedPublisher_two:
  "isTrustedPublisher t s [''TheGreenBow'', ''SISTECH''] =
     (t = ERROR_SUCCESS \<and>
      (map tolower (take 11 s) = map tolower ''TheGreenBow'' \<or>
       map tolower (take 7 s) = map tolower ''SISTECH''))"
  unfolding isTrustedPublisher_def Bex_two length_TheGreenBow length_SISTECH ..

text \<open>\<^verbatim>\<open>tgb_is_signed\<close> on a path, by the status and the result of the extraction.\<close>

lemma tgb_is_signed_cases:
  "tgb_is_signed P (Some path) w =
     (if fst (SD_VerifyEmbeddedSignature P path w) = ERROR_SUCCESS then
        (case SD_GetAuthenticodeInformation P path ZeroMemory_SignInfo
                (snd (SD_VerifyEmbeddedSignature P path w)) of
           (Fault, w2) \<Rightarrow> (Fault, w2)
         | (Returns (bRet, SignInfo), w2) \<Rightarrow>
             if bRet then
               (case lpszSubjectName SignInfo of
                  None \<Rightarrow> (Fault, w2)
                | Some s \<Rightarrow>
                    (Returns (PyBool_FromLong
                       (strnicmp s ''TheGreenBow'' 11 = 0 \<or> strnicmp s ''SISTECH'' 7 = 0)), w2))
             else (Returns (PyBool_FromLong False), w2))
      else (Returns (PyBool_FromLong False), snd (SD_VerifyEmbeddedSignature P path w)))"
  by (simp add: tgb_is_signed_def tcsncicmp_def split: prod.splits outcome.splits option.splits)

text \<open>
  Claim C2. Whenever the subject name that the extraction hands to the comparison is
  \<open>subjectName\<close> (the extraction runs only after Success), \<^verbatim>\<open>tgb_is_signed\<close> returns the
  boolean of the decision rule of the specification for the trust result, that subject
  name and the two prefixes: true if and only if the trust result is Success and the
  first N characters of the subject name equal, in lower case, one of the prefixes, N
  being the length of that prefix. The witness is the subject name
  "Not TheGreenBow Inc" on a validly signed file, which yields false.
\<close>

theorem tgb_is_signed_isTrustedPublisher:
  assumes "SD_VerifyEmbeddedSignature P path w = (trustResult, w1)"
    and "trustResult = ERROR_SUCCESS \<longrightarrow>
           fst (SD_GetAuthenticodeInformation P path ZeroMemory_SignInfo w1) = Returns (True, info) \<and>
           lpszSubjectName info = Some subjectName"
  shows "fst (tgb_is_signed P (Some path) w) =
           Returns (PyBool_FromLong
             (isTrustedPublisher trustResult subjectName [''TheGreenBow'', ''SISTECH'']))"
proof (cases "trustResult = ERROR_SUCCESS")
  case True
  with assms obtain w2 where
    "SD_GetAuthenticodeInformation P path ZeroMemory_SignInfo w1 = (Returns (True, info), w2)"
    and "lpszSubjectName info = Some subjectName"
    by (cases "SD_GetAuthenticodeInformation P path ZeroMemory_SignInfo w1") auto
  with True assms(1) show ?thesis
    unfolding tgb_is_signed_cases strnicmp_TheGreenBow strnicmp_SISTECH isTrustedPublisher_two
    by simp
next
  case False
  with assms(1) show ?thesis
    unfolding tgb_is_signed_cases isTrustedPublisher_two
    by simp
qed

theorem tgb_is_signed_isTrustedPublisher_witness:
  "SD_VerifyEmbeddedSignature
     (platform_of (signed_file\<lparr>subject_name := Some ''Not TheGreenBow Inc''\<rparr>))
     ''C:/vpn/plugin.dll'' () = (ERROR_SUCCESS, ()) \<and>
   fst (tgb_is_signed (platform_of (signed_file\<lparr>subject_name := Some ''Not TheGreenBow Inc''\<rparr>))
          (Some ''C:/vpn/plugin.dll'') ()) = Returns (PyBool_FromLong False)"
proof -
  let ?P = "platform_of (signed_file\<lparr>subject_name := Some ''Not TheGreenBow Inc''\<rparr>)"
  have v: "SD_VerifyEmbeddedSignature ?P ''C:/vpn/plugin.dll'' () = (ERROR_SUCCESS, ())"
    by code_simp
  have e: "fst (SD_GetAuthenticodeInformation ?P ''C:/vpn/plugin.dll'' ZeroMemory_SignInfo ()) =
             Returns (True, \<lparr>lpszProgramName = None, lpszPublisherLink = None,
               lpszMoreInfoLink = None, cbSerialSize = 2, lpSerialNumber = Some [10, 11],
               lpszIssuerName = Some ''Sample Code Signing CA'',
               lpszSubjectName = Some ''Not TheGreenBow Inc''\<rparr>)"
    by code_simp
  have p: "isTrustedPublisher ERROR_SUCCESS ''Not TheGreenBow Inc'' [''TheGreenBow'', ''SISTECH'']
             = False"
    by code_simp
  from tgb_is_signed_isTrustedPublisher [OF v, of _ "''Not TheGreenBow Inc''"] e p v
  show ?thesis
    by simp
qed

text \<open>
  Claim C9. For every platform, world and argument, \<^verbatim>\<open>tgb_is_signed\<close> returns true if and
  only if the trust verification returns Success, the extraction reports success with a
  subject name, and the first 11 characters of that name equal "TheGreenBow" in lower
  case or its first 7 characters equal "SISTECH" in lower case. The two prefixes are
  literals of the function: the platform, which holds everything external, has no part
  in them.
\<close>

theorem tgb_is_signed_True_iff:
  "fst (tgb_is_signed P args w) = Returns (PyBool_FromLong True) \<longleftrightarrow>
     (\<exists>path info subj.
        args = Some path \<and>
        fst (SD_VerifyEmbeddedSignature P path w) = ERROR_SUCCESS \<and>
        fst (SD_GetAuthenticodeInformation P path ZeroMemory_SignInfo
               (snd (SD_VerifyEmbeddedSignature P path w))) = Returns (True, info) \<and>
        lpszSubjectName info = Some subj \<and>
        (map tolower (take 11 subj) = map tolower ''TheGreenBow'' \<or>
         map tolower (take 7 subj) = map tolower ''SISTECH''))"
proof (cases args)
  case None
  then show ?thesis by (simp add: tgb_is_signed_def)
next
  case (Some path)
  show ?thesis
    unfolding Some tgb_is_signed_cases strnicmp_TheGreenBow strnicmp_SISTECH
    by (auto split: prod.splits outcome.splits option.splits)
qed

subsection \<open>The calls of a recorded run\<close>

lemma recording_calls:
  "CryptQueryObject (recording P) f (w, cs) =
     (fst (CryptQueryObject P f w), snd (CryptQueryObject P f w), cs @ [Call_CryptQueryObject f])"
  "CryptMsgGetParam_size (recording P) h (w, cs) =
     (fst (CryptMsgGetParam_size P h w), snd (CryptMsgGetParam_size P h w),
      cs @ [Call_CryptMsgGetParam h None])"
  "CryptMsgGetParam_data (recording P) h n (w, cs) =
     (fst (CryptMsgGetParam_data P h n w), snd (CryptMsgGetParam_data P h n w),
      cs @ [Call_CryptMsgGetParam h (Some n)])"
  "CryptDecodeObject_size (recording P) b (w, cs) =
     (fst (CryptDecodeObject_size P b w), snd (CryptDecodeObject_size P b w),
      cs @ [Call_CryptDecodeObject b None])"
  "CryptDecodeObject_data (recording P) b n (w, cs) =
     (fst (CryptDecodeObject_data P b n w), snd (CryptDecodeObject_data P b n w),
      cs @ [Call_CryptDecodeObject b (Some n)])"
  "LocalAlloc (recording P) m (w, cs) =
     (fst (LocalAlloc P m w), snd (LocalAlloc P m w), cs @ [Call_LocalAlloc m])"
  "VirtualAlloc (recording P) m (w, cs) =
     (fst (VirtualAlloc P m w), snd (VirtualAlloc P m w), cs @ [Call_VirtualAlloc m])"
  "CertFindCertificateInStore (recording P) h i sn (w, cs) =
     (fst (CertFindCertificateInStore P h i sn w), snd (CertFindCertificateInStore P h i sn w),
      cs @ [Call_CertFindCertificateInStore h i sn])"
  "CertGetNameString (recording P) c fl cch (w, cs) =
     (fst (CertGetNameString P c fl cch w), snd (CertGetNameString P c fl cch w),
      cs @ [Call_CertGetNameString c fl cch])"
  by (simp_all add: recording_def record_call_def split: prod.splits)

lemma AllocateAndCopyWideString_recording:
  "AllocateAndCopyWideString (recording P) s (w, cs) =
     (fst (AllocateAndCopyWideString P s w), snd (AllocateAndCopyWideString P s w),
      cs @ [Call_LocalAlloc ((length s + 1) * sizeof_WCHAR)])"
  by (simp add: AllocateAndCopyWideString_def recording_calls split: prod.splits)

lemma switch_dwLinkChoice_recording:
  "switch_dwLinkChoice (recording P) l (w, cs) =
     (fst (switch_dwLinkChoice P l w), snd (switch_dwLinkChoice P l w),
      cs @ (case l of
              Some (SPC_URL_LINK_CHOICE u) \<Rightarrow> [Call_LocalAlloc ((length u + 1) * sizeof_WCHAR)]
            | Some (SPC_FILE_LINK_CHOICE f) \<Rightarrow> [Call_LocalAlloc ((length f + 1) * sizeof_WCHAR)]
            | _ \<Rightarrow> []))"
  by (simp add: switch_dwLinkChoice_def AllocateAndCopyWideString_recording
      split: option.splits SPC_LINK.splits)

lemma opus_attribute_calls:
  "\<exists>more. snd (snd (opus_attribute (recording P) a i (w, cs))) = cs @ more"
  by (simp add: opus_attribute_def recording_calls AllocateAndCopyWideString_recording
      switch_dwLinkChoice_recording split: prod.splits option.splits bool.splits)

lemma for_rgAttr_calls:
  "\<exists>more. snd (snd (for_rgAttr (recording P) as i (w, cs))) = cs @ more"
  by (induction as) (simp_all add: opus_attribute_calls)

lemma GetProgAndPublisherInfo_calls:
  "\<exists>more. snd (snd (GetProgAndPublisherInfo (recording P) si i (w, cs))) = cs @ more"
  by (simp add: GetProgAndPublisherInfo_def for_rgAttr_calls)

lemma try_CertGetNameString_calls:
  "\<exists>more. snd (snd (try_CertGetNameString (recording P) c fl nm (w, cs))) = cs @ more"
  by (simp add: try_CertGetNameString_def recording_calls split: prod.splits bool.splits)

lemma GetCertificateInfo_calls:
  "\<exists>more. snd (snd (GetCertificateInfo (recording P) h si i (w, cs))) = cs @ more"
proof (cases "fst (CertFindCertificateInStore P h (Issuer si) (SerialNumber si) w)")
  case None
  then show ?thesis
    by (simp add: GetCertificateInfo_def recording_calls)
next
  case (Some c)
  let ?cs1 = "cs @ [Call_CertFindCertificateInStore h (Issuer si) (SerialNumber si),
                    Call_VirtualAlloc (unat (of_nat (length (certSerialNumber c)) :: DWORD))]"
  obtain nm1 w3 m1 where
    1: "try_CertGetNameString (recording P) c CERT_NAME_ISSUER_FLAG (lpszIssuerName i)
          (snd (VirtualAlloc P (unat (of_nat (length (certSerialNumber c)) :: DWORD))
                  (snd (CertFindCertificateInStore P h (Issuer si) (SerialNumber si) w))), ?cs1)
        = (nm1, w3, ?cs1 @ m1)"
    using try_CertGetNameString_calls [of P c CERT_NAME_ISSUER_FLAG "lpszIssuerName i" _ ?cs1]
    by (metis prod.collapse)
  obtain nm2 w4 m2 where
    2: "try_CertGetNameString (recording P) c 0 (lpszSubjectName i) (w3, ?cs1 @ m1)
        = (nm2, w4, (?cs1 @ m1) @ m2)"
    using try_CertGetNameString_calls [of P c 0 "lpszSubjectName i" w3 "?cs1 @ m1"]
    by (metis prod.collapse)
  from Some 1 2 show ?thesis
    by (simp add: GetCertificateInfo_def recording_calls Let_def split: prod.splits)
qed

lemma SD_VerifyEmbeddedSignature_recorded:
  assumes "mbstowcs_s_TRUNCATE P MAX_PATH path = (RetCode, f)"
  shows "SD_VerifyEmbeddedSignature (recording P) path (w, cs) =
     (case WinVerifyTrust P (WinTrustData f False) w of
        (s1, w1) \<Rightarrow>
          if switch_lStatus s1 False then
            (case WinVerifyTrust P (WinTrustData f True) w1 of
               (s2, w2) \<Rightarrow>
                 (s2, w2, cs @ [Call_WinVerifyTrust (WinTrustData f False),
                                 Call_WinVerifyTrust (WinTrustData f True)]))
          else (s1, w1, cs @ [Call_WinVerifyTrust (WinTrustData f False)]))"
  using assms
  by (simp add: SD_VerifyEmbeddedSignature_def recording_mbstowcs_s do_while_unrolled
      recording_WinVerifyTrust split: prod.splits)

lemma switch_CERT_E_CHAINING: "switch_lStatus CERT_E_CHAINING False"
  by (simp add: switch_lStatus_def CERT_E_CHAINING_def ERROR_SUCCESS_def TRUST_E_NOSIGNATURE_def
      TRUST_E_EXPLICIT_DISTRUST_def TRUST_E_SUBJECT_NOT_TRUSTED_def CRYPT_E_SECURITY_SETTINGS_def
      TRUST_E_BAD_DIGEST_def)

subsection \<open>The retry after a chaining failure\<close>

text \<open>
  Claim C4. When the cache-only attempt returns \<^verbatim>\<open>CERT_E_CHAINING\<close>, the verification
  makes exactly one more call of \<^verbatim>\<open>WinVerifyTrust\<close>, whose \<^verbatim>\<open>dwProvFlags\<close> is 0 (no
  cache-only restriction), and returns the status and the world of that second call,
  whatever the status is. When that status is not Success, \<^verbatim>\<open>tgb_is_signed\<close> returns false
  after these two calls and no other. When it is Success, \<^verbatim>\<open>tgb_is_signed\<close> goes on with
  the signer-info extraction, from the world the retry left, and its result is the
  publisher policy on the subject name that the extraction returns.
\<close>

theorem tgb_is_signed_after_CERT_E_CHAINING:
  assumes m: "mbstowcs_s_TRUNCATE P MAX_PATH path = (RetCode, f)"
    and first: "WinVerifyTrust P (WinTrustData f False) w = (CERT_E_CHAINING, w1)"
    and second: "WinVerifyTrust P (WinTrustData f True) w1 = (retry, w2)"
  shows "SD_VerifyEmbeddedSignature (recording P) path (w, []) =
           (retry, w2, [Call_WinVerifyTrust (WinTrustData f False),
                        Call_WinVerifyTrust (WinTrustData f True)]) \<and>
         dwProvFlags (WinTrustData f False) = WTD_CACHE_ONLY_URL_RETRIEVAL \<and>
         dwProvFlags (WinTrustData f True) = 0 \<and>
         (retry \<noteq> ERROR_SUCCESS \<longrightarrow>
            tgb_is_signed (recording P) (Some path) (w, []) =
              (Returns (PyBool_FromLong False), w2,
               [Call_WinVerifyTrust (WinTrustData f False),
                Call_WinVerifyTrust (WinTrustData f True)])) \<and>
         (retry = ERROR_SUCCESS \<longrightarrow>
            snd (tgb_is_signed (recording P) (Some path) (w, [])) =
              snd (SD_GetAuthenticodeInformation (recording P) path ZeroMemory_SignInfo
                     (w2, [Call_WinVerifyTrust (WinTrustData f False),
                           Call_WinVerifyTrust (WinTrustData f True)])) \<and>
            fst (tgb_is_signed (recording P) (Some path) (w, [])) =
              (case fst (SD_GetAuthenticodeInformation (recording P) path ZeroMemory_SignInfo
                     (w2, [Call_WinVerifyTrust (WinTrustData f False),
                           Call_WinVerifyTrust (WinTrustData f True)])) of
                 Fault \<Rightarrow> Fault
               | Returns (bRet, SignInfo) \<Rightarrow>
                   if bRet then
                     (case lpszSubjectName SignInfo of
                        None \<Rightarrow> Fault
                      | Some subjectName \<Rightarrow>
                          Returns (PyBool_FromLong
                            (isTrustedPublisher retry subjectName [''TheGreenBow'', ''SISTECH''])))
                   else Returns (PyBool_FromLong False)))"
proof -
  have v: "SD_VerifyEmbeddedSignature (recording P) path (w, []) =
           (retry, w2, [Call_WinVerifyTrust (WinTrustData f False),
                        Call_WinVerifyTrust (WinTrustData f True)])"
    using first second switch_CERT_E_CHAINING
    by (simp add: SD_VerifyEmbeddedSignature_recorded [OF m])
  have flags: "dwProvFlags (WinTrustData f False) = WTD_CACHE_ONLY_URL_RETRIEVAL"
    "dwProvFlags (WinTrustData f True) = 0"
    by (simp_all add: WinTrustData_def)
  have fail: "tgb_is_signed (recording P) (Some path) (w, []) =
              (Returns (PyBool_FromLong False), w2,
               [Call_WinVerifyTrust (WinTrustData f False),
                Call_WinVerifyTrust (WinTrustData f True)])" if "retry \<noteq> ERROR_SUCCESS"
    using that v by (simp add: tgb_is_signed_cases)
  have ok: "snd (tgb_is_signed (recording P) (Some path) (w, [])) =
              snd (SD_GetAuthenticodeInformation (recording P) path ZeroMemory_SignInfo
                     (w2, [Call_WinVerifyTrust (WinTrustData f False),
                           Call_WinVerifyTrust (WinTrustData f True)])) \<and>
            fst (tgb_is_signed (recording P) (Some path) (w, [])) =
              (case fst (SD_GetAuthenticodeInformation (recording P) path ZeroMemory_SignInfo
                     (w2, [Call_WinVerifyTrust (WinTrustData f False),
                           Call_WinVerifyTrust (WinTrustData f True)])) of
                 Fault \<Rightarrow> Fault
               | Returns (bRet, SignInfo) \<Rightarrow>
                   if bRet then
                     (case lpszSubjectName SignInfo of
                        None \<Rightarrow> Fault
                      | Some subjectName \<Rightarrow>
                          Returns (PyBool_FromLong
                            (isTrustedPublisher retry subjectName [''TheGreenBow'', ''SISTECH''])))
                   else Returns (PyBool_FromLong False))" if "retry = ERROR_SUCCESS"
    using that v
    unfolding tgb_is_signed_cases strnicmp_TheGreenBow strnicmp_SISTECH isTrustedPublisher_two
    by (simp split: prod.splits outcome.splits option.splits)
  from v flags fail ok show ?thesis
    by blast
qed

subsection \<open>The signer-info extraction\<close>

lemma SD_Get_fails_iff:
  assumes "mbstowcs_s_TRUNCATE P MAX_PATH path = (RetCode, wszFileName)"
  shows "(\<exists>info. fst (SD_GetAuthenticodeInformation P path pInfo w) = Returns (False, info)) \<longleftrightarrow>
     (RetCode \<noteq> 0 \<or>
      (case CryptQueryObject P wszFileName w of
         (None, w1) \<Rightarrow> True
       | (Some (hStore, hMsg), w1) \<Rightarrow>
           (case CryptMsgGetParam_size P hMsg w1 of
              (None, w2) \<Rightarrow> True
            | (Some dwSignerInfo, w2) \<Rightarrow>
                (case LocalAlloc P (unat dwSignerInfo) w2 of
                   (False, w3) \<Rightarrow> True
                 | (True, w3) \<Rightarrow> fst (CryptMsgGetParam_data P hMsg dwSignerInfo w3) = None))))"
  using assms
  by (simp add: SD_GetAuthenticodeInformation_def
      split: prod.splits option.splits bool.splits outcome.splits)

lemma SD_Get_recording_success:
  assumes "mbstowcs_s_TRUNCATE P MAX_PATH path = (0, wszFileName)"
    and "CryptQueryObject P wszFileName w = (Some (hStore, hMsg), w1)"
    and "CryptMsgGetParam_size P hMsg w1 = (Some dwSignerInfo, w2)"
    and "LocalAlloc P (unat dwSignerInfo) w2 = (True, w3)"
    and "CryptMsgGetParam_data P hMsg dwSignerInfo w3 = (Some pSignerInfo, w4)"
  shows "\<exists>more. snd (snd (SD_GetAuthenticodeInformation (recording P) path pInfo (w, cs))) =
           (cs @ [Call_CryptQueryObject wszFileName, Call_CryptMsgGetParam hMsg None,
                  Call_LocalAlloc (unat dwSignerInfo),
                  Call_CryptMsgGetParam hMsg (Some dwSignerInfo)]) @ more"
proof -
  let ?cs4 = "cs @ [Call_CryptQueryObject wszFileName, Call_CryptMsgGetParam hMsg None,
                    Call_LocalAlloc (unat dwSignerInfo),
                    Call_CryptMsgGetParam hMsg (Some dwSignerInfo)]"
  obtain i1 v5 m1 where
    1: "GetProgAndPublisherInfo (recording P) pSignerInfo pInfo (w4, ?cs4) = (i1, v5, ?cs4 @ m1)"
    using GetProgAndPublisherInfo_calls [of P pSignerInfo pInfo w4 ?cs4]
    by (metis prod.collapse)
  obtain o2 v6 m2 where
    2: "GetCertificateInfo (recording P) hStore pSignerInfo i1 (v5, ?cs4 @ m1) =
          (o2, v6, (?cs4 @ m1) @ m2)"
    using GetCertificateInfo_calls [of P hStore pSignerInfo i1 v5 "?cs4 @ m1"]
    by (metis prod.collapse)
  from assms 1 2 show ?thesis
    by (cases o2)
      (simp_all add: SD_GetAuthenticodeInformation_def recording_mbstowcs_s recording_calls)
qed

lemma SD_Get_two_phase:
  assumes m: "mbstowcs_s_TRUNCATE P MAX_PATH path = (RetCode, wszFileName)"
    and ok: "\<not> (\<exists>info. fst (SD_GetAuthenticodeInformation P path pInfo w) = Returns (False, info))"
  shows "\<exists>hStore hMsg w1 dwSignerInfo w2.
           CryptQueryObject P wszFileName w = (Some (hStore, hMsg), w1) \<and>
           CryptMsgGetParam_size P hMsg w1 = (Some dwSignerInfo, w2) \<and>
           take 4 (snd (snd (SD_GetAuthenticodeInformation (recording P) path pInfo (w, [])))) =
             [Call_CryptQueryObject wszFileName, Call_CryptMsgGetParam hMsg None,
              Call_LocalAlloc (unat dwSignerInfo), Call_CryptMsgGetParam hMsg (Some dwSignerInfo)]"
proof -
  note iff = SD_Get_fails_iff [OF m, of pInfo w]
  from ok iff have r: "RetCode = 0"
    by blast
  obtain q w1 where q: "CryptQueryObject P wszFileName w = (q, w1)"
    by (cases "CryptQueryObject P wszFileName w")
  with ok iff obtain hStore hMsg where q': "q = Some (hStore, hMsg)"
    by (cases q) auto
  obtain z w2 where z: "CryptMsgGetParam_size P hMsg w1 = (z, w2)"
    by (cases "CryptMsgGetParam_size P hMsg w1")
  with ok iff q q' obtain n where z': "z = Some n"
    by (cases z) auto
  obtain a w3 where a: "LocalAlloc P (unat n) w2 = (a, w3)"
    by (cases "LocalAlloc P (unat n) w2")
  with ok iff q q' z z' have a': "a"
    by (cases a) auto
  obtain d w4 where d: "CryptMsgGetParam_data P hMsg n w3 = (d, w4)"
    by (cases "CryptMsgGetParam_data P hMsg n w3")
  with ok iff q q' z z' a a' obtain si where d': "d = Some si"
    by (cases d) auto
  from SD_Get_recording_success [of P path wszFileName w hStore hMsg w1 n w2 w3 si w4 pInfo "[]"]
    m r q q' z z' a a' d d'
  obtain more where
    "snd (snd (SD_GetAuthenticodeInformation (recording P) path pInfo (w, []))) =
       [Call_CryptQueryObject wszFileName, Call_CryptMsgGetParam hMsg None,
        Call_LocalAlloc (unat n), Call_CryptMsgGetParam hMsg (Some n)] @ more"
    by auto
  with q q' z z' show ?thesis
    by simp
qed

text \<open>
  Claim C7, as amended. The extraction returns \<^verbatim>\<open>FALSE\<close> exactly when one of five steps
  fails: the conversion of the path into the \<^verbatim>\<open>MAX_PATH\<close> buffer (an invalid sequence, or
  a path that had to be cut), \<^verbatim>\<open>CryptQueryObject\<close>, the size query, the allocation of the
  buffer, or the fetch. When none fails, the first four platform calls are
  \<^verbatim>\<open>CryptQueryObject\<close> on the converted path, the size query, the allocation of exactly the
  size the query answered, and the fetch into a buffer of that size.
\<close>

theorem SD_GetAuthenticodeInformation_FALSE_iff:
  assumes m: "mbstowcs_s_TRUNCATE P MAX_PATH path = (RetCode, wszFileName)"
  shows "((\<exists>info. fst (SD_GetAuthenticodeInformation P path pInfo w) = Returns (False, info)) \<longleftrightarrow>
           (RetCode \<noteq> 0 \<or>
            (case CryptQueryObject P wszFileName w of
               (None, w1) \<Rightarrow> True
             | (Some (hStore, hMsg), w1) \<Rightarrow>
                 (case CryptMsgGetParam_size P hMsg w1 of
                    (None, w2) \<Rightarrow> True
                  | (Some dwSignerInfo, w2) \<Rightarrow>
                      (case LocalAlloc P (unat dwSignerInfo) w2 of
                         (False, w3) \<Rightarrow> True
                       | (True, w3) \<Rightarrow>
                           fst (CryptMsgGetParam_data P hMsg dwSignerInfo w3) = None))))) \<and>
         (\<not> (\<exists>info. fst (SD_GetAuthenticodeInformation P path pInfo w) = Returns (False, info)) \<longrightarrow>
            (\<exists>hStore hMsg w1 dwSignerInfo w2.
               CryptQueryObject P wszFileName w = (Some (hStore, hMsg), w1) \<and>
               CryptMsgGetParam_size P hMsg w1 = (Some dwSignerInfo, w2) \<and>
               take 4 (snd (snd (SD_GetAuthenticodeInformation (recording P) path pInfo (w, [])))) =
                 [Call_CryptQueryObject wszFileName, Call_CryptMsgGetParam hMsg None,
                  Call_LocalAlloc (unat dwSignerInfo),
                  Call_CryptMsgGetParam hMsg (Some dwSignerInfo)]))"
  using SD_Get_fails_iff [OF m, of pInfo w] SD_Get_two_phase [OF m, of pInfo w]
  by blast


subsection \<open>Paths of \<^verbatim>\<open>MAX_PATH\<close> characters or more\<close>

lemma mbstowcs_s_long:
  assumes "mb_decode P path = Some ws" and "MAX_PATH \<le> length ws"
  shows "mbstowcs_s_TRUNCATE P MAX_PATH path = (STRUNCATE, take (MAX_PATH - 1) ws)"
  using assms by (simp add: mbstowcs_s_TRUNCATE_def)

text \<open>
  Claim C10, as amended. For a path that decodes to \<^verbatim>\<open>MAX_PATH\<close> wide characters or more,
  the trust verification silently works on the path cut to \<^verbatim>\<open>MAX_PATH - 1\<close> characters:
  every call it makes is a \<^verbatim>\<open>WinVerifyTrust\<close> on the cut path. The signer-info
  extraction does not: \<^verbatim>\<open>mbstowcs_s\<close> reports the truncation, the function leaves at
  once and returns \<^verbatim>\<open>FALSE\<close> without a platform call. So \<^verbatim>\<open>tgb_is_signed\<close> returns
  false for such a path, after the calls of the trust verification and no other.
\<close>

theorem long_path_is_rejected:
  assumes d: "mb_decode P path = Some ws" and l: "MAX_PATH \<le> length ws"
  shows "snd (snd (SD_VerifyEmbeddedSignature (recording P) path (w, []))) \<noteq> [] \<and>
         (\<forall>c \<in> set (snd (snd (SD_VerifyEmbeddedSignature (recording P) path (w, [])))).
            \<exists>d. c = Call_WinVerifyTrust d \<and> pcwszFilePath d = take (MAX_PATH - 1) ws) \<and>
         SD_GetAuthenticodeInformation (recording P) path pInfo (w, cs) =
           (Returns (False, pInfo), w, cs) \<and>
         fst (tgb_is_signed (recording P) (Some path) (w, [])) = Returns (PyBool_FromLong False) \<and>
         snd (tgb_is_signed (recording P) (Some path) (w, [])) =
           snd (SD_VerifyEmbeddedSignature (recording P) path (w, []))"
proof -
  note m = mbstowcs_s_long [OF d l]
  have p: "pcwszFilePath (WinTrustData f b) = f" for f b
    by (simp add: WinTrustData_def)
  have 1: "snd (snd (SD_VerifyEmbeddedSignature (recording P) path (w, []))) \<noteq> []"
    by (simp add: SD_VerifyEmbeddedSignature_recorded [OF m] split: prod.splits)
  have 2: "\<forall>c \<in> set (snd (snd (SD_VerifyEmbeddedSignature (recording P) path (w, [])))).
            \<exists>d. c = Call_WinVerifyTrust d \<and> pcwszFilePath d = take (MAX_PATH - 1) ws"
    by (simp add: SD_VerifyEmbeddedSignature_recorded [OF m] p split: prod.splits)
  have 3: "SD_GetAuthenticodeInformation (recording P) path i s = (Returns (False, i), s)" for i s
    using m by (simp add: SD_GetAuthenticodeInformation_def recording_mbstowcs_s STRUNCATE_def)
  have 4: "tgb_is_signed (recording P) (Some path) (w, []) =
             (Returns (PyBool_FromLong False),
              snd (SD_VerifyEmbeddedSignature (recording P) path (w, [])))"
    by (simp add: tgb_is_signed_cases 3)
  from 1 2 3 4 show ?thesis
    by simp
qed

subsection \<open>The certificate fields\<close>

lemma opus_attribute_certificate_fields:
  "cbSerialSize (fst (opus_attribute P a i w)) = cbSerialSize i \<and>
   lpSerialNumber (fst (opus_attribute P a i w)) = lpSerialNumber i \<and>
   lpszIssuerName (fst (opus_attribute P a i w)) = lpszIssuerName i \<and>
   lpszSubjectName (fst (opus_attribute P a i w)) = lpszSubjectName i"
  by (simp add: opus_attribute_def split: prod.splits option.splits bool.splits)

lemma for_rgAttr_certificate_fields:
  "cbSerialSize (fst (for_rgAttr P as i w)) = cbSerialSize i \<and>
   lpSerialNumber (fst (for_rgAttr P as i w)) = lpSerialNumber i \<and>
   lpszIssuerName (fst (for_rgAttr P as i w)) = lpszIssuerName i \<and>
   lpszSubjectName (fst (for_rgAttr P as i w)) = lpszSubjectName i"
  by (induction as) (simp_all add: opus_attribute_certificate_fields)

lemma GetProgAndPublisherInfo_certificate_fields:
  "cbSerialSize (fst (GetProgAndPublisherInfo P si i w)) = cbSerialSize i \<and>
   lpSerialNumber (fst (GetProgAndPublisherInfo P si i w)) = lpSerialNumber i \<and>
   lpszIssuerName (fst (GetProgAndPublisherInfo P si i w)) = lpszIssuerName i \<and>
   lpszSubjectName (fst (GetProgAndPublisherInfo P si i w)) = lpszSubjectName i"
  by (simp add: GetProgAndPublisherInfo_def for_rgAttr_certificate_fields)

lemma SD_Get_after_fetch:
  assumes m: "mbstowcs_s_TRUNCATE P MAX_PATH path = (0, wszFileName)"
    and q: "CryptQueryObject P wszFileName w = (Some (hStore, hMsg), w1)"
    and z: "CryptMsgGetParam_size P hMsg w1 = (Some dwSignerInfo, w2)"
    and a: "LocalAlloc P (unat dwSignerInfo) w2 = (True, w3)"
    and d: "CryptMsgGetParam_data P hMsg dwSignerInfo w3 = (Some pSignerInfo, w4)"
    and g: "GetProgAndPublisherInfo P pSignerInfo pInfo w4 = (pInfo1, w5)"
  shows "SD_GetAuthenticodeInformation P path pInfo w =
           (case GetCertificateInfo P hStore pSignerInfo pInfo1 w5 of
              (Fault, w6) \<Rightarrow> (Fault, w6)
            | (Returns pInfo2, w6) \<Rightarrow> (Returns (True, pInfo2), w6))"
  using assms by (simp add: SD_GetAuthenticodeInformation_def)

lemma try_CertGetNameString_block:
  assumes "CertGetNameString P cert dwFlags None v = ((dwData, unused), v1)"
  shows "(dwData = 0 \<longrightarrow> try_CertGetNameString P cert dwFlags lpszName v = (lpszName, v1)) \<and>
         (\<forall>v2. dwData \<noteq> 0 \<and> VirtualAlloc P (unat dwData * sizeof_TCHAR) v1 = (False, v2) \<longrightarrow>
            try_CertGetNameString P cert dwFlags lpszName v = (None, v2)) \<and>
         (\<forall>v2 copied buffer v3.
            dwData \<noteq> 0 \<and> VirtualAlloc P (unat dwData * sizeof_TCHAR) v1 = (True, v2) \<and>
            CertGetNameString P cert dwFlags (Some dwData) v2 = ((copied, buffer), v3) \<longrightarrow>
            try_CertGetNameString P cert dwFlags lpszName v = (Some buffer, v3))"
  using assms by (simp add: try_CertGetNameString_def)

text \<open>
  Claim C1, as amended. \<^verbatim>\<open>GetCertificateInfo\<close> returns no status and
  \<^verbatim>\<open>SD_GetAuthenticodeInformation\<close> sets \<^verbatim>\<open>bRet\<close> after it unconditionally, so the
  extraction is not atomic in the certificate fields. Once the path is converted, the
  signed object opened and the signer-info record fetched (the first seven hypotheses
  name the answers of these steps, of \<^verbatim>\<open>GetProgAndPublisherInfo\<close> and of the lookup):
  \<^item> the extraction never reports failure, and \<^verbatim>\<open>GetProgAndPublisherInfo\<close> has left the
    four certificate fields as they were on entry;
  \<^item> when the signer's certificate is not in the store, the extraction reports success
    with these fields as they were on entry (empty, after \<^verbatim>\<open>ZeroMemory\<close>);
  \<^item> when the certificate is found and the buffer of the serial number is allocated (or
    the serial number is empty), the extraction reports success, with the size and the
    bytes of the serial number and with what the two name blocks assign, the issuer
    first, the subject in the world the issuer block left;
  \<^item> a name block, for every certificate, flags, previous value and world: a length
    query that answers zero leaves the name as it was; a buffer that cannot be allocated
    leaves it \<^verbatim>\<open>NULL\<close>; otherwise the name is the buffer as the fetch left it, whatever
    count the fetch returns, zero included.
  So no failure of a name query or fetch fails the extraction, and each name is assigned
  on its own. The run on which the allocation for a serial number that is not empty
  fails is left out.
\<close>

theorem certificate_fields_not_atomic:
  assumes m: "mbstowcs_s_TRUNCATE P MAX_PATH path = (0, wszFileName)"
    and q: "CryptQueryObject P wszFileName w = (Some (hStore, hMsg), w1)"
    and z: "CryptMsgGetParam_size P hMsg w1 = (Some dwSignerInfo, w2)"
    and a: "LocalAlloc P (unat dwSignerInfo) w2 = (True, w3)"
    and d: "CryptMsgGetParam_data P hMsg dwSignerInfo w3 = (Some pSignerInfo, w4)"
    and g: "GetProgAndPublisherInfo P pSignerInfo pInfo w4 = (pInfo1, w5)"
    and c: "CertFindCertificateInStore P hStore (Issuer pSignerInfo) (SerialNumber pSignerInfo) w5 =
              (found, w6)"
  shows
    "(\<forall>info. fst (SD_GetAuthenticodeInformation P path pInfo w) \<noteq> Returns (False, info)) \<and>
     cbSerialSize pInfo1 = cbSerialSize pInfo \<and>
     lpSerialNumber pInfo1 = lpSerialNumber pInfo \<and>
     lpszIssuerName pInfo1 = lpszIssuerName pInfo \<and>
     lpszSubjectName pInfo1 = lpszSubjectName pInfo \<and>
     (found = None \<longrightarrow>
        SD_GetAuthenticodeInformation P path pInfo w = (Returns (True, pInfo1), w6)) \<and>
     (\<forall>cert lpSerial w7 IssuerName w8 SubjectName w9.
        found = Some cert \<and>
        VirtualAlloc P (unat (of_nat (length (certSerialNumber cert)) :: DWORD)) w6 =
          (lpSerial, w7) \<and>
        (lpSerial \<or> (of_nat (length (certSerialNumber cert)) :: DWORD) = 0) \<and>
        try_CertGetNameString P cert CERT_NAME_ISSUER_FLAG (lpszIssuerName pInfo) w7 =
          (IssuerName, w8) \<and>
        try_CertGetNameString P cert 0 (lpszSubjectName pInfo) w8 = (SubjectName, w9) \<longrightarrow>
        SD_GetAuthenticodeInformation P path pInfo w =
          (Returns (True,
             pInfo1\<lparr>cbSerialSize := of_nat (length (certSerialNumber cert)),
                    lpSerialNumber :=
                      (if lpSerial
                       then Some (take (unat (of_nat (length (certSerialNumber cert)) :: DWORD))
                                    (certSerialNumber cert))
                       else None),
                    lpszIssuerName := IssuerName,
                    lpszSubjectName := SubjectName\<rparr>), w9)) \<and>
     (\<forall>cert dwFlags lpszName v dwData unused v1.
        CertGetNameString P cert dwFlags None v = ((dwData, unused), v1) \<longrightarrow>
          (dwData = 0 \<longrightarrow> try_CertGetNameString P cert dwFlags lpszName v = (lpszName, v1)) \<and>
          (\<forall>v2. dwData \<noteq> 0 \<and>
                VirtualAlloc P (unat dwData * sizeof_TCHAR) v1 = (False, v2) \<longrightarrow>
             try_CertGetNameString P cert dwFlags lpszName v = (None, v2)) \<and>
          (\<forall>v2 copied buffer v3.
             dwData \<noteq> 0 \<and> VirtualAlloc P (unat dwData * sizeof_TCHAR) v1 = (True, v2) \<and>
             CertGetNameString P cert dwFlags (Some dwData) v2 = ((copied, buffer), v3) \<longrightarrow>
             try_CertGetNameString P cert dwFlags lpszName v = (Some buffer, v3)))"
proof -
  note r = SD_Get_after_fetch [OF m q z a d g]
  from g GetProgAndPublisherInfo_certificate_fields [of P pSignerInfo pInfo w4]
  have f: "cbSerialSize pInfo1 = cbSerialSize pInfo"
    "lpSerialNumber pInfo1 = lpSerialNumber pInfo"
    "lpszIssuerName pInfo1 = lpszIssuerName pInfo"
    "lpszSubjectName pInfo1 = lpszSubjectName pInfo"
    by simp_all
  have 1: "\<forall>info. fst (SD_GetAuthenticodeInformation P path pInfo w) \<noteq> Returns (False, info)"
    unfolding r by (simp split: prod.splits outcome.splits)
  have 2: "SD_GetAuthenticodeInformation P path pInfo w = (Returns (True, pInfo1), w6)"
    if "found = None"
    unfolding r using that c by (simp add: GetCertificateInfo_def)
  have 3: "SD_GetAuthenticodeInformation P path pInfo w =
          (Returns (True,
             pInfo1\<lparr>cbSerialSize := of_nat (length (certSerialNumber cert)),
                    lpSerialNumber :=
                      (if lpSerial
                       then Some (take (unat (of_nat (length (certSerialNumber cert)) :: DWORD))
                                    (certSerialNumber cert))
                       else None),
                    lpszIssuerName := IssuerName,
                    lpszSubjectName := SubjectName\<rparr>), w9)"
    if "found = Some cert"
      and "VirtualAlloc P (unat (of_nat (length (certSerialNumber cert)) :: DWORD)) w6 =
             (lpSerial, w7)"
      and "lpSerial \<or> (of_nat (length (certSerialNumber cert)) :: DWORD) = 0"
      and "try_CertGetNameString P cert CERT_NAME_ISSUER_FLAG (lpszIssuerName pInfo) w7 =
             (IssuerName, w8)"
      and "try_CertGetNameString P cert 0 (lpszSubjectName pInfo) w8 = (SubjectName, w9)"
    for cert lpSerial w7 IssuerName w8 SubjectName w9
    unfolding r using that c f by (auto simp: GetCertificateInfo_def Let_def)
  have 4: "\<forall>cert dwFlags lpszName v dwData unused v1.
        CertGetNameString P cert dwFlags None v = ((dwData, unused), v1) \<longrightarrow>
          (dwData = 0 \<longrightarrow> try_CertGetNameString P cert dwFlags lpszName v = (lpszName, v1)) \<and>
          (\<forall>v2. dwData \<noteq> 0 \<and>
                VirtualAlloc P (unat dwData * sizeof_TCHAR) v1 = (False, v2) \<longrightarrow>
             try_CertGetNameString P cert dwFlags lpszName v = (None, v2)) \<and>
          (\<forall>v2 copied buffer v3.
             dwData \<noteq> 0 \<and> VirtualAlloc P (unat dwData * sizeof_TCHAR) v1 = (True, v2) \<and>
             CertGetNameString P cert dwFlags (Some dwData) v2 = ((copied, buffer), v3) \<longrightarrow>
             try_CertGetNameString P cert dwFlags lpszName v = (Some buffer, v3))"
    by (intro allI impI) (rule try_CertGetNameString_block)
  have all3: "\<forall>cert lpSerial w7 IssuerName w8 SubjectName w9.
        found = Some cert \<and>
        VirtualAlloc P (unat (of_nat (length (certSerialNumber cert)) :: DWORD)) w6 =
          (lpSerial, w7) \<and>
        (lpSerial \<or> (of_nat (length (certSerialNumber cert)) :: DWORD) = 0) \<and>
        try_CertGetNameString P cert CERT_NAME_ISSUER_FLAG (lpszIssuerName pInfo) w7 =
          (IssuerName, w8) \<and>
        try_CertGetNameString P cert 0 (lpszSubjectName pInfo) w8 = (SubjectName, w9) \<longrightarrow>
        SD_GetAuthenticodeInformation P path pInfo w =
          (Returns (True,
             pInfo1\<lparr>cbSerialSize := of_nat (length (certSerialNumber cert)),
                    lpSerialNumber :=
                      (if lpSerial
                       then Some (take (unat (of_nat (length (certSerialNumber cert)) :: DWORD))
                                    (certSerialNumber cert))
                       else None),
                    lpszIssuerName := IssuerName,
                    lpszSubjectName := SubjectName\<rparr>), w9)"
    by (intro allI impI, elim conjE, rule 3)
  have imp2: "found = None \<longrightarrow>
        SD_GetAuthenticodeInformation P path pInfo w = (Returns (True, pInfo1), w6)"
    using 2 by (rule impI)
  show ?thesis
    by (intro conjI 1 f imp2 all3 4)
qed

subsection \<open>The opus-info attribute\<close>

lemma for_rgAttr_absent:
  "\<forall>a\<in>set as. pszObjId a \<noteq> SPC_SP_OPUS_INFO_OBJID \<Longrightarrow> for_rgAttr P as i w = (i, w)"
  by (induction as) simp_all

lemma for_rgAttr_present:
  "\<forall>a\<in>set pre. pszObjId a \<noteq> SPC_SP_OPUS_INFO_OBJID \<Longrightarrow>
   pszObjId attr = SPC_SP_OPUS_INFO_OBJID \<Longrightarrow>
   for_rgAttr P (pre @ attr # post) i w = opus_attribute P attr i w"
  by (induction pre) simp_all

lemma switch_dwLinkChoice_other:
  "switch_dwLinkChoice P (Some (SPC_OTHER_LINK_CHOICE t)) w = (None, w)"
  by (simp add: switch_dwLinkChoice_def)

lemma opus_attribute_decoded:
  assumes "CryptDecodeObject_size P (rgValue0 attr) w = (Some n, w1)"
    and "LocalAlloc P (unat n) w1 = (True, w2)"
    and "CryptDecodeObject_data P (rgValue0 attr) n w2 = (Some OpusInfo, w3)"
  shows "lpszPublisherLink (fst (opus_attribute P attr i w)) =
           fst (switch_dwLinkChoice P (pPublisherInfo OpusInfo)
                  (snd (case pwszProgramName OpusInfo of
                          Some name \<Rightarrow> AllocateAndCopyWideString P name w3
                        | None \<Rightarrow> (None, w3))))"
    and "pMoreInfo OpusInfo = Some (SPC_OTHER_LINK_CHOICE t) \<Longrightarrow>
           lpszMoreInfoLink (fst (opus_attribute P attr i w)) = None"
  using assms
  by (simp_all add: opus_attribute_def switch_dwLinkChoice_other split: prod.splits)

text \<open>
  Claim C6. \<^verbatim>\<open>GetProgAndPublisherInfo\<close> returns no status and has no way to fail: it
  returns a record on every signer-info record, platform and world. When no
  authenticated attribute has the opus-info identifier, it makes no platform call and
  returns \<^verbatim>\<open>pInfo\<close> as it is, so the three fields are empty after \<^verbatim>\<open>ZeroMemory\<close>. When
  the first attribute with that identifier decodes, a publisher link whose choice is
  neither the URL nor the file variant leaves \<^verbatim>\<open>lpszPublisherLink\<close> empty, and such a
  more-info link leaves \<^verbatim>\<open>lpszMoreInfoLink\<close> empty.
\<close>

theorem GetProgAndPublisherInfo_never_fails:
  "((\<forall>a\<in>set (AuthAttrs si). pszObjId a \<noteq> SPC_SP_OPUS_INFO_OBJID) \<longrightarrow>
      GetProgAndPublisherInfo (recording P) si pInfo (w, cs) = (pInfo, w, cs)) \<and>
   (AuthAttrs si = pre @ attr # post \<and>
    (\<forall>a\<in>set pre. pszObjId a \<noteq> SPC_SP_OPUS_INFO_OBJID) \<and>
    pszObjId attr = SPC_SP_OPUS_INFO_OBJID \<and>
    CryptDecodeObject_size P (rgValue0 attr) w = (Some n, w1) \<and>
    LocalAlloc P (unat n) w1 = (True, w2) \<and>
    CryptDecodeObject_data P (rgValue0 attr) n w2 = (Some OpusInfo, w3) \<longrightarrow>
      (pPublisherInfo OpusInfo = Some (SPC_OTHER_LINK_CHOICE t) \<longrightarrow>
         lpszPublisherLink (fst (GetProgAndPublisherInfo P si pInfo w)) = None) \<and>
      (pMoreInfo OpusInfo = Some (SPC_OTHER_LINK_CHOICE t') \<longrightarrow>
         lpszMoreInfoLink (fst (GetProgAndPublisherInfo P si pInfo w)) = None))"
proof (intro conjI impI)
  assume "\<forall>a\<in>set (AuthAttrs si). pszObjId a \<noteq> SPC_SP_OPUS_INFO_OBJID"
  then show "GetProgAndPublisherInfo (recording P) si pInfo (w, cs) = (pInfo, w, cs)"
    by (simp add: GetProgAndPublisherInfo_def for_rgAttr_absent)
next
  assume h: "AuthAttrs si = pre @ attr # post \<and>
    (\<forall>a\<in>set pre. pszObjId a \<noteq> SPC_SP_OPUS_INFO_OBJID) \<and>
    pszObjId attr = SPC_SP_OPUS_INFO_OBJID \<and>
    CryptDecodeObject_size P (rgValue0 attr) w = (Some n, w1) \<and>
    LocalAlloc P (unat n) w1 = (True, w2) \<and>
    CryptDecodeObject_data P (rgValue0 attr) n w2 = (Some OpusInfo, w3)"
    and p: "pPublisherInfo OpusInfo = Some (SPC_OTHER_LINK_CHOICE t)"
  from h have "GetProgAndPublisherInfo P si pInfo w = opus_attribute P attr pInfo w"
    by (simp add: GetProgAndPublisherInfo_def for_rgAttr_present)
  with h p show "lpszPublisherLink (fst (GetProgAndPublisherInfo P si pInfo w)) = None"
    by (simp add: opus_attribute_decoded(1) switch_dwLinkChoice_other)
next
  assume h: "AuthAttrs si = pre @ attr # post \<and>
    (\<forall>a\<in>set pre. pszObjId a \<noteq> SPC_SP_OPUS_INFO_OBJID) \<and>
    pszObjId attr = SPC_SP_OPUS_INFO_OBJID \<and>
    CryptDecodeObject_size P (rgValue0 attr) w = (Some n, w1) \<and>
    LocalAlloc P (unat n) w1 = (True, w2) \<and>
    CryptDecodeObject_data P (rgValue0 attr) n w2 = (Some OpusInfo, w3)"
    and p: "pMoreInfo OpusInfo = Some (SPC_OTHER_LINK_CHOICE t')"
  from h have "GetProgAndPublisherInfo P si pInfo w = opus_attribute P attr pInfo w"
    by (simp add: GetProgAndPublisherInfo_def for_rgAttr_present)
  with h p show "lpszMoreInfoLink (fst (GetProgAndPublisherInfo P si pInfo w)) = None"
    by (simp add: opus_attribute_decoded(2))
qed


subsection \<open>Runs on platforms that answer alike\<close>

lemma alike_bind:
  assumes "answers_alike R m m'"
    and "\<And>a w' v'. R w' v' \<Longrightarrow> answers_alike R (k a w') (k' a v')"
  shows "answers_alike R (case m of (a, w') \<Rightarrow> k a w') (case m' of (a, v') \<Rightarrow> k' a v')"
  using assms by (cases m; cases m') (simp add: answers_alike_def)

lemma alike_return: "R w v \<Longrightarrow> answers_alike R (a, w) (a, v)"
  by (simp add: answers_alike_def)

lemma simulatesD:
  assumes "simulates R P Q" and "R w v"
  shows "answers_alike R (WinVerifyTrust P d w) (WinVerifyTrust Q d v)"
    and "answers_alike R (CryptQueryObject P f w) (CryptQueryObject Q f v)"
    and "answers_alike R (CryptMsgGetParam_size P h w) (CryptMsgGetParam_size Q h v)"
    and "answers_alike R (CryptMsgGetParam_data P h n w) (CryptMsgGetParam_data Q h n v)"
    and "answers_alike R (CryptDecodeObject_size P b w) (CryptDecodeObject_size Q b v)"
    and "answers_alike R (CryptDecodeObject_data P b n w) (CryptDecodeObject_data Q b n v)"
    and "answers_alike R (LocalAlloc P m w) (LocalAlloc Q m v)"
    and "answers_alike R (VirtualAlloc P m w) (VirtualAlloc Q m v)"
    and "answers_alike R (CertFindCertificateInStore P h i sn w)
           (CertFindCertificateInStore Q h i sn v)"
    and "answers_alike R (CertGetNameString P c fl cch w) (CertGetNameString Q c fl cch v)"
  using assms unfolding simulates_def by blast+

lemma simulates_mbstowcs_s:
  "simulates R P Q \<Longrightarrow> mbstowcs_s_TRUNCATE P n src = mbstowcs_s_TRUNCATE Q n src"
  by (simp add: simulates_def mbstowcs_s_TRUNCATE_def)

lemma SD_VerifyEmbeddedSignature_alike:
  assumes S: "simulates R P Q" and r: "R w v"
  shows "answers_alike R (SD_VerifyEmbeddedSignature P path w) (SD_VerifyEmbeddedSignature Q path v)"
proof -
  obtain RetCode f where m: "mbstowcs_s_TRUNCATE Q MAX_PATH path = (RetCode, f)"
    by (cases "mbstowcs_s_TRUNCATE Q MAX_PATH path")
  have "answers_alike R (do_while P f False 0 w) (do_while Q f False 0 v)"
    unfolding do_while_unrolled using r
    by (auto intro!: alike_bind alike_return simulatesD [OF S])
  with m show ?thesis
    by (simp add: SD_VerifyEmbeddedSignature_def simulates_mbstowcs_s [OF S])
qed

lemma AllocateAndCopyWideString_alike:
  assumes S: "simulates R P Q" and r: "R w v"
  shows "answers_alike R (AllocateAndCopyWideString P s w) (AllocateAndCopyWideString Q s v)"
  unfolding AllocateAndCopyWideString_def using r
  by (auto intro!: alike_bind alike_return simulatesD [OF S])

lemma switch_dwLinkChoice_alike:
  assumes S: "simulates R P Q" and r: "R w v"
  shows "answers_alike R (switch_dwLinkChoice P l w) (switch_dwLinkChoice Q l v)"
  unfolding switch_dwLinkChoice_def using r
  by (auto intro!: alike_return AllocateAndCopyWideString_alike [OF S]
      split: option.split SPC_LINK.split)

lemma opus_attribute_alike:
  assumes S: "simulates R P Q" and r: "R w v"
  shows "answers_alike R (opus_attribute P a i w) (opus_attribute Q a i v)"
  unfolding opus_attribute_def using r
  by (auto intro!: alike_bind alike_return simulatesD [OF S]
      AllocateAndCopyWideString_alike [OF S] switch_dwLinkChoice_alike [OF S]
      split: option.split bool.split)

lemma for_rgAttr_alike:
  assumes S: "simulates R P Q" and r: "R w v"
  shows "answers_alike R (for_rgAttr P as i w) (for_rgAttr Q as i v)"
  using r by (induction as) (simp_all add: alike_return opus_attribute_alike [OF S])

lemma GetProgAndPublisherInfo_alike:
  assumes S: "simulates R P Q" and r: "R w v"
  shows "answers_alike R (GetProgAndPublisherInfo P si i w) (GetProgAndPublisherInfo Q si i v)"
  unfolding GetProgAndPublisherInfo_def by (rule for_rgAttr_alike [OF S r])

lemma try_CertGetNameString_alike:
  assumes S: "simulates R P Q" and r: "R w v"
  shows "answers_alike R (try_CertGetNameString P c fl nm w) (try_CertGetNameString Q c fl nm v)"
  unfolding try_CertGetNameString_def using r
  by (auto intro!: alike_bind alike_return simulatesD [OF S] split: bool.split)

lemma GetCertificateInfo_alike:
  assumes S: "simulates R P Q" and r: "R w v"
  shows "answers_alike R (GetCertificateInfo P h si i w) (GetCertificateInfo Q h si i v)"
  unfolding GetCertificateInfo_def Let_def using r
  by (auto intro!: alike_bind alike_return simulatesD [OF S] try_CertGetNameString_alike [OF S]
      split: option.split)

lemma SD_GetAuthenticodeInformation_alike:
  assumes S: "simulates R P Q" and r: "R w v"
  shows "answers_alike R (SD_GetAuthenticodeInformation P path i w)
           (SD_GetAuthenticodeInformation Q path i v)"
proof -
  obtain RetCode f where m: "mbstowcs_s_TRUNCATE Q MAX_PATH path = (RetCode, f)"
    by (cases "mbstowcs_s_TRUNCATE Q MAX_PATH path")
  show ?thesis
    unfolding SD_GetAuthenticodeInformation_def simulates_mbstowcs_s [OF S] m using r
    by (auto intro!: alike_bind alike_return simulatesD [OF S]
        GetProgAndPublisherInfo_alike [OF S] GetCertificateInfo_alike [OF S]
        split: option.split bool.split outcome.split)
qed

lemma tgb_is_signed_alike:
  assumes S: "simulates R P Q" and r: "R w v"
  shows "answers_alike R (tgb_is_signed P args w) (tgb_is_signed Q args v)"
  unfolding tgb_is_signed_def using r
  by (auto intro!: alike_bind alike_return SD_VerifyEmbeddedSignature_alike [OF S]
      SD_GetAuthenticodeInformation_alike [OF S]
      split: option.split outcome.split)

text \<open>
  What holds of two consecutive calls: on a platform all of whose answers, those of the
  allocators included, are determined by an observation of the world, when that
  observation is the same after a call of \<^verbatim>\<open>tgb_is_signed\<close> as before it, a second call
  on the same argument, started in the world that the first call left, returns what the
  first call returned.
\<close>

lemma tgb_is_signed_repeats:
  assumes "determined_by obs P"
    and "obs (snd (tgb_is_signed P args w)) = obs w"
  shows "fst (tgb_is_signed P args (snd (tgb_is_signed P args w))) = fst (tgb_is_signed P args w)"
  using tgb_is_signed_alike [of "\<lambda>w v. obs w = obs v" P P "snd (tgb_is_signed P args w)" w args]
    assms
  by (simp add: determined_by_def answers_alike_def)

text \<open>A recorded platform is simulated by the platform it records.\<close>

lemma recording_simulates: "simulates (\<lambda>s v. fst s = v) (recording P) P"
  by (simp add: simulates_def answers_alike_def recording_def record_call_def split: prod.splits)

lemma tgb_is_signed_recording:
  "fst (tgb_is_signed (recording P) args (w, cs)) = fst (tgb_is_signed P args w) \<and>
   fst (snd (tgb_is_signed (recording P) args (w, cs))) = snd (tgb_is_signed P args w)"
proof -
  have "answers_alike (\<lambda>s v. fst s = v) (tgb_is_signed (recording P) args (w, cs))
          (tgb_is_signed P args w)"
    by (rule tgb_is_signed_alike [OF recording_simulates]) simp
  then show ?thesis
    by (simp add: answers_alike_def)
qed

lemma recording_determined_by: "determined_by fst (recording P)"
  by (simp add: determined_by_def simulates_def answers_alike_def recording_def record_call_def
      split: prod.splits)


subsection \<open>The outcomes of \<^verbatim>\<open>tgb_is_signed\<close>\<close>

text \<open>
  A trust result other than Success ends the call with false, in the world that the
  trust verification left: the extraction is not attempted.
\<close>

lemma tgb_is_signed_without_Success:
  "fst (SD_VerifyEmbeddedSignature P path w) \<noteq> ERROR_SUCCESS \<Longrightarrow>
   tgb_is_signed P (Some path) w =
     (Returns (PyBool_FromLong False), snd (SD_VerifyEmbeddedSignature P path w))"
  by (simp add: tgb_is_signed_cases)

text \<open>
  The call does not return exactly when, after Success, the extraction faults or reports
  success with a subject name that is \<^verbatim>\<open>NULL\<close>.
\<close>

lemma faulting_runs_of_tgb_is_signed:
  "fst (tgb_is_signed P (Some path) w) = Fault \<longleftrightarrow>
     fst (SD_VerifyEmbeddedSignature P path w) = ERROR_SUCCESS \<and>
     (fst (SD_GetAuthenticodeInformation P path ZeroMemory_SignInfo
             (snd (SD_VerifyEmbeddedSignature P path w))) = Fault \<or>
      (\<exists>info. fst (SD_GetAuthenticodeInformation P path ZeroMemory_SignInfo
                     (snd (SD_VerifyEmbeddedSignature P path w))) = Returns (True, info) \<and>
              lpszSubjectName info = None))"
  unfolding tgb_is_signed_cases
  by (auto split: prod.splits outcome.splits option.splits)

subsection \<open>Instances on the sample platforms\<close>

text \<open>
  The theorems with hypotheses, applied to sample platforms on which the hypotheses
  hold, and the runs on which a sentence of the specification fails.
\<close>

theorem tgb_is_signed_after_CERT_E_CHAINING_witness:
  "WinVerifyTrust (platform_of (signed_file\<lparr>cache_only_status := CERT_E_CHAINING\<rparr>))
     (WinTrustData (widen ''C:/vpn/plugin.dll'') False) () = (CERT_E_CHAINING, ()) \<and>
   WinVerifyTrust (platform_of (signed_file\<lparr>cache_only_status := CERT_E_CHAINING\<rparr>))
     (WinTrustData (widen ''C:/vpn/plugin.dll'') True) () = (ERROR_SUCCESS, ()) \<and>
   SD_VerifyEmbeddedSignature
     (recording (platform_of (signed_file\<lparr>cache_only_status := CERT_E_CHAINING\<rparr>)))
     ''C:/vpn/plugin.dll'' ((), []) =
     (ERROR_SUCCESS, (),
      [Call_WinVerifyTrust (WinTrustData (widen ''C:/vpn/plugin.dll'') False),
       Call_WinVerifyTrust (WinTrustData (widen ''C:/vpn/plugin.dll'') True)]) \<and>
   fst (tgb_is_signed
     (recording (platform_of (signed_file\<lparr>cache_only_status := CERT_E_CHAINING\<rparr>)))
     (Some ''C:/vpn/plugin.dll'') ((), [])) = Returns (PyBool_FromLong True) \<and>
   tgb_is_signed
     (recording (platform_of (signed_file\<lparr>cache_only_status := CERT_E_CHAINING,
                                            network_status := CERT_E_CHAINING\<rparr>)))
     (Some ''C:/vpn/plugin.dll'') ((), []) =
     (Returns (PyBool_FromLong False), (),
      [Call_WinVerifyTrust (WinTrustData (widen ''C:/vpn/plugin.dll'') False),
       Call_WinVerifyTrust (WinTrustData (widen ''C:/vpn/plugin.dll'') True)])"
proof -
  let ?P = "platform_of (signed_file\<lparr>cache_only_status := CERT_E_CHAINING\<rparr>)"
  let ?Q = "platform_of (signed_file\<lparr>cache_only_status := CERT_E_CHAINING,
                                      network_status := CERT_E_CHAINING\<rparr>)"
  let ?f = "widen ''C:/vpn/plugin.dll''"
  have mP: "mbstowcs_s_TRUNCATE ?P MAX_PATH ''C:/vpn/plugin.dll'' = (0, ?f)"
    by code_simp
  have mQ: "mbstowcs_s_TRUNCATE ?Q MAX_PATH ''C:/vpn/plugin.dll'' = (0, ?f)"
    by code_simp
  have P1: "WinVerifyTrust ?P (WinTrustData ?f False) () = (CERT_E_CHAINING, ())"
    by code_simp
  have P2: "WinVerifyTrust ?P (WinTrustData ?f True) () = (ERROR_SUCCESS, ())"
    by code_simp
  have Q1: "WinVerifyTrust ?Q (WinTrustData ?f False) () = (CERT_E_CHAINING, ())"
    by code_simp
  have Q2: "WinVerifyTrust ?Q (WinTrustData ?f True) () = (CERT_E_CHAINING, ())"
    by code_simp
  have ne: "CERT_E_CHAINING \<noteq> ERROR_SUCCESS"
    by code_simp
  have e: "fst (SD_GetAuthenticodeInformation (recording ?P) ''C:/vpn/plugin.dll''
              ZeroMemory_SignInfo
              ((), [Call_WinVerifyTrust (WinTrustData ?f False),
                    Call_WinVerifyTrust (WinTrustData ?f True)])) =
           Returns (True, \<lparr>lpszProgramName = None, lpszPublisherLink = None,
               lpszMoreInfoLink = None, cbSerialSize = 2, lpSerialNumber = Some [10, 11],
               lpszIssuerName = Some ''Sample Code Signing CA'',
               lpszSubjectName = Some ''TheGreenBow Networks''\<rparr>)"
    by code_simp
  have p: "isTrustedPublisher ERROR_SUCCESS ''TheGreenBow Networks'' [''TheGreenBow'', ''SISTECH'']"
    by code_simp
  note P = tgb_is_signed_after_CERT_E_CHAINING [OF mP P1 P2]
  note Q = tgb_is_signed_after_CERT_E_CHAINING [OF mQ Q1 Q2]
  from P have a: "SD_VerifyEmbeddedSignature (recording ?P) ''C:/vpn/plugin.dll'' ((), []) =
     (ERROR_SUCCESS, (),
      [Call_WinVerifyTrust (WinTrustData ?f False), Call_WinVerifyTrust (WinTrustData ?f True)])"
    by blast
  from P e p have b: "fst (tgb_is_signed (recording ?P) (Some ''C:/vpn/plugin.dll'') ((), [])) =
     Returns (PyBool_FromLong True)"
    by simp
  from Q ne have c: "tgb_is_signed (recording ?Q) (Some ''C:/vpn/plugin.dll'') ((), []) =
     (Returns (PyBool_FromLong False), (),
      [Call_WinVerifyTrust (WinTrustData ?f False), Call_WinVerifyTrust (WinTrustData ?f True)])"
    by blast
  from P1 P2 a b c show ?thesis
    by blast
qed

text \<open>
  Against claim C7 as stated: the signed object opens and the size query succeeds, the
  allocation of the buffer fails, and the extraction returns \<^verbatim>\<open>FALSE\<close> before any fetch;
  and for a path of 260 characters it returns \<^verbatim>\<open>FALSE\<close> before the file is queried at
  all.
\<close>

theorem SD_GetAuthenticodeInformation_FALSE_counterexample:
  "CryptQueryObject (platform_of (signed_file\<lparr>memory := False\<rparr>))
     (widen ''C:/vpn/plugin.dll'') () = (Some (1, 2), ()) \<and>
   CryptMsgGetParam_size (platform_of (signed_file\<lparr>memory := False\<rparr>)) 2 () = (Some 64, ()) \<and>
   SD_GetAuthenticodeInformation (recording (platform_of (signed_file\<lparr>memory := False\<rparr>)))
     ''C:/vpn/plugin.dll'' ZeroMemory_SignInfo ((), []) =
     (Returns (False, ZeroMemory_SignInfo), (),
      [Call_CryptQueryObject (widen ''C:/vpn/plugin.dll''), Call_CryptMsgGetParam 2 None,
       Call_LocalAlloc 64]) \<and>
   SD_GetAuthenticodeInformation (recording (platform_of signed_file))
     (replicate 260 CHR ''a'') ZeroMemory_SignInfo ((), []) =
     (Returns (False, ZeroMemory_SignInfo), (), [])"
  by code_simp

theorem SD_GetAuthenticodeInformation_FALSE_iff_witness:
  "mbstowcs_s_TRUNCATE (platform_of signed_file) MAX_PATH ''C:/vpn/plugin.dll'' =
     (0, widen ''C:/vpn/plugin.dll'') \<and>
   fst (SD_GetAuthenticodeInformation (platform_of signed_file) ''C:/vpn/plugin.dll''
          ZeroMemory_SignInfo ()) \<noteq> Returns (False, ZeroMemory_SignInfo) \<and>
   take 4 (snd (snd (SD_GetAuthenticodeInformation (recording (platform_of signed_file))
                       ''C:/vpn/plugin.dll'' ZeroMemory_SignInfo ((), [])))) =
     [Call_CryptQueryObject (widen ''C:/vpn/plugin.dll''), Call_CryptMsgGetParam 2 None,
      Call_LocalAlloc 64, Call_CryptMsgGetParam 2 (Some 64)]"
proof -
  let ?P = "platform_of signed_file"
  let ?f = "widen ''C:/vpn/plugin.dll''"
  have m: "mbstowcs_s_TRUNCATE ?P MAX_PATH ''C:/vpn/plugin.dll'' = (0, ?f)"
    by code_simp
  have e: "fst (SD_GetAuthenticodeInformation ?P ''C:/vpn/plugin.dll'' ZeroMemory_SignInfo ()) =
           Returns (True, \<lparr>lpszProgramName = None, lpszPublisherLink = None,
               lpszMoreInfoLink = None, cbSerialSize = 2, lpSerialNumber = Some [10, 11],
               lpszIssuerName = Some ''Sample Code Signing CA'',
               lpszSubjectName = Some ''TheGreenBow Networks''\<rparr>)"
    by code_simp
  then have n: "\<not> (\<exists>info. fst (SD_GetAuthenticodeInformation ?P ''C:/vpn/plugin.dll''
                      ZeroMemory_SignInfo ()) = Returns (False, info))"
    by simp
  have q: "CryptQueryObject ?P ?f () = (Some (1, 2), ())"
    by code_simp
  have z: "CryptMsgGetParam_size ?P 2 () = (Some 64, ())"
    by code_simp
  have u: "unat (64 :: DWORD) = 64"
    by simp
  from SD_GetAuthenticodeInformation_FALSE_iff [OF m, of ZeroMemory_SignInfo "()"] n
  obtain hStore hMsg w1 dwSignerInfo w2 where
    "CryptQueryObject ?P ?f () = (Some (hStore, hMsg), w1)"
    "CryptMsgGetParam_size ?P hMsg w1 = (Some dwSignerInfo, w2)"
    "take 4 (snd (snd (SD_GetAuthenticodeInformation (recording ?P) ''C:/vpn/plugin.dll''
                         ZeroMemory_SignInfo ((), [])))) =
       [Call_CryptQueryObject ?f, Call_CryptMsgGetParam hMsg None,
        Call_LocalAlloc (unat dwSignerInfo), Call_CryptMsgGetParam hMsg (Some dwSignerInfo)]"
    by blast
  with q z u have "take 4 (snd (snd (SD_GetAuthenticodeInformation (recording ?P)
        ''C:/vpn/plugin.dll'' ZeroMemory_SignInfo ((), [])))) =
       [Call_CryptQueryObject ?f, Call_CryptMsgGetParam 2 None,
        Call_LocalAlloc 64, Call_CryptMsgGetParam 2 (Some 64)]"
    by simp
  with m n show ?thesis
    by simp
qed

text \<open>
  Against claim C10 as stated: for a path of 260 characters the extraction reports
  failure without a platform call, and the verdict is false, while the verdict for the
  path cut to 259 characters is true.
\<close>

theorem long_path_counterexample:
  "SD_GetAuthenticodeInformation (recording (platform_of signed_file))
     (replicate 260 CHR ''a'') ZeroMemory_SignInfo ((), []) =
     (Returns (False, ZeroMemory_SignInfo), (), []) \<and>
   fst (tgb_is_signed (platform_of signed_file) (Some (replicate 260 CHR ''a'')) ()) =
     Returns (PyBool_FromLong False) \<and>
   fst (tgb_is_signed (platform_of signed_file) (Some (take 259 (replicate 260 CHR ''a''))) ()) =
     Returns (PyBool_FromLong True)"
  by code_simp

theorem long_path_is_rejected_witness:
  "mb_decode (platform_of signed_file) (replicate 260 CHR ''a'') =
     Some (widen (replicate 260 CHR ''a'')) \<and>
   MAX_PATH \<le> length (widen (replicate 260 CHR ''a'')) \<and>
   snd (snd (SD_VerifyEmbeddedSignature (recording (platform_of signed_file))
               (replicate 260 CHR ''a'') ((), []))) =
     [Call_WinVerifyTrust (WinTrustData (widen (replicate 259 CHR ''a'')) False)] \<and>
   tgb_is_signed (recording (platform_of signed_file)) (Some (replicate 260 CHR ''a'')) ((), []) =
     (Returns (PyBool_FromLong False), (),
      [Call_WinVerifyTrust (WinTrustData (widen (replicate 259 CHR ''a'')) False)])"
proof -
  let ?P = "platform_of signed_file"
  let ?p = "replicate 260 CHR ''a''"
  have d: "mb_decode ?P ?p = Some (widen ?p)"
    by code_simp
  have l: "MAX_PATH \<le> length (widen ?p)"
    by code_simp
  have v: "snd (snd (SD_VerifyEmbeddedSignature (recording ?P) ?p ((), []))) =
     [Call_WinVerifyTrust (WinTrustData (widen (replicate 259 CHR ''a'')) False)]"
    by code_simp
  from long_path_is_rejected [OF d l, of "()" ZeroMemory_SignInfo "[]"] v
  have "tgb_is_signed (recording ?P) (Some ?p) ((), []) =
     (Returns (PyBool_FromLong False), (),
      [Call_WinVerifyTrust (WinTrustData (widen (replicate 259 CHR ''a'')) False)])"
    by (simp add: prod_eq_iff)
  with d l v show ?thesis
    by blast
qed

text \<open>
  Against claim C1 as stated: the extraction reports success with the serial number and
  the subject name set and the issuer name empty, when the length query of the issuer
  name answers zero; it reports success with all three fields empty when the signer's
  certificate is not in the store; and it reports success when both fetches of the
  display names fail, the two names pointing to buffers that hold no name.
\<close>

theorem certificate_fields_counterexample:
  "fst (SD_GetAuthenticodeInformation (platform_of (signed_file\<lparr>issuer_name := None\<rparr>))
          ''C:/vpn/plugin.dll'' ZeroMemory_SignInfo ()) =
     Returns (True,
       \<lparr>lpszProgramName = None, lpszPublisherLink = None, lpszMoreInfoLink = None,
        cbSerialSize = 2, lpSerialNumber = Some [10, 11], lpszIssuerName = None,
        lpszSubjectName = Some ''TheGreenBow Networks''\<rparr>) \<and>
   fst (SD_GetAuthenticodeInformation (platform_of (signed_file\<lparr>signer_certificate := None\<rparr>))
          ''C:/vpn/plugin.dll'' ZeroMemory_SignInfo ()) =
     Returns (True,
       \<lparr>lpszProgramName = None, lpszPublisherLink = None, lpszMoreInfoLink = None,
        cbSerialSize = 0, lpSerialNumber = None, lpszIssuerName = None,
        lpszSubjectName = None\<rparr>) \<and>
   CertGetNameString failing_fetch \<lparr>hCertContext = 3, certSerialNumber = [10, 11]\<rparr>
     CERT_NAME_ISSUER_FLAG (Some 32) () = ((0, []), ()) \<and>
   CertGetNameString failing_fetch \<lparr>hCertContext = 3, certSerialNumber = [10, 11]\<rparr>
     0 (Some 32) () = ((0, []), ()) \<and>
   fst (SD_GetAuthenticodeInformation failing_fetch
          ''C:/vpn/plugin.dll'' ZeroMemory_SignInfo ()) =
     Returns (True,
       \<lparr>lpszProgramName = None, lpszPublisherLink = None, lpszMoreInfoLink = None,
        cbSerialSize = 2, lpSerialNumber = Some [10, 11], lpszIssuerName = Some [],
        lpszSubjectName = Some []\<rparr>)"
  by code_simp

theorem certificate_fields_not_atomic_witness:
  "SD_GetAuthenticodeInformation (platform_of (signed_file\<lparr>signer_certificate := None\<rparr>))
     ''C:/vpn/plugin.dll'' ZeroMemory_SignInfo () = (Returns (True, ZeroMemory_SignInfo), ()) \<and>
   SD_GetAuthenticodeInformation (platform_of signed_file)
     ''C:/vpn/plugin.dll'' ZeroMemory_SignInfo () =
     (Returns (True,
        \<lparr>lpszProgramName = None, lpszPublisherLink = None, lpszMoreInfoLink = None,
         cbSerialSize = 2, lpSerialNumber = Some [10, 11],
         lpszIssuerName = Some ''Sample Code Signing CA'',
         lpszSubjectName = Some ''TheGreenBow Networks''\<rparr>), ()) \<and>
   try_CertGetNameString failing_fetch \<lparr>hCertContext = 3, certSerialNumber = [10, 11]\<rparr>
     CERT_NAME_ISSUER_FLAG None () = (Some [], ())"
proof -
  let ?N = "platform_of (signed_file\<lparr>signer_certificate := None\<rparr>)"
  let ?P = "platform_of signed_file"
  let ?p = "''C:/vpn/plugin.dll''"
  let ?si = "signer_info signed_file"
  let ?c = "\<lparr>hCertContext = 3, certSerialNumber = [10, 11 :: BYTE]\<rparr>"
  have mN: "mbstowcs_s_TRUNCATE ?N MAX_PATH ?p = (0, widen ?p)"
    and mP: "mbstowcs_s_TRUNCATE ?P MAX_PATH ?p = (0, widen ?p)"
    by code_simp+
  have qN: "CryptQueryObject ?N (widen ?p) () = (Some (1, 2), ())"
    and qP: "CryptQueryObject ?P (widen ?p) () = (Some (1, 2), ())"
    by (simp_all add: platform_of_def)
  have zN: "CryptMsgGetParam_size ?N 2 () = (Some 64, ())"
    and zP: "CryptMsgGetParam_size ?P 2 () = (Some 64, ())"
    by (simp_all add: platform_of_def)
  have aN: "LocalAlloc ?N (unat (64 :: DWORD)) () = (True, ())"
    and aP: "LocalAlloc ?P (unat (64 :: DWORD)) () = (True, ())"
    by (simp_all add: platform_of_def signed_file_def)
  have dN: "CryptMsgGetParam_data ?N 2 64 () = (Some ?si, ())"
    and dP: "CryptMsgGetParam_data ?P 2 64 () = (Some ?si, ())"
    by (simp_all add: platform_of_def)
  have gN: "GetProgAndPublisherInfo ?N ?si ZeroMemory_SignInfo () = (ZeroMemory_SignInfo, ())"
    and gP: "GetProgAndPublisherInfo ?P ?si ZeroMemory_SignInfo () = (ZeroMemory_SignInfo, ())"
    by code_simp+
  have cN: "CertFindCertificateInStore ?N 1 (Issuer ?si) (SerialNumber ?si) () = (None, ())"
    by (simp add: platform_of_def)
  have cP: "CertFindCertificateInStore ?P 1 (Issuer ?si) (SerialNumber ?si) () = (Some ?c, ())"
    by (simp add: platform_of_def signed_file_def)
  note N = certificate_fields_not_atomic [OF mN qN zN aN dN gN cN]
  note P = certificate_fields_not_atomic [OF mP qP zP aP dP gP cP]
  from N have 1: "SD_GetAuthenticodeInformation ?N ?p ZeroMemory_SignInfo () =
                    (Returns (True, ZeroMemory_SignInfo), ())"
    by blast
  have v: "VirtualAlloc ?P (unat (of_nat (length (certSerialNumber ?c)) :: DWORD)) () = (True, ())"
    by (simp add: platform_of_def signed_file_def)
  have i: "try_CertGetNameString ?P ?c CERT_NAME_ISSUER_FLAG (lpszIssuerName ZeroMemory_SignInfo) ()
             = (Some ''Sample Code Signing CA'', ())"
    by code_simp
  have s: "try_CertGetNameString ?P ?c 0 (lpszSubjectName ZeroMemory_SignInfo) ()
             = (Some ''TheGreenBow Networks'', ())"
    by code_simp
  from P v i s have "SD_GetAuthenticodeInformation ?P ?p ZeroMemory_SignInfo () =
      (Returns (True,
         ZeroMemory_SignInfo
           \<lparr>cbSerialSize := of_nat (length (certSerialNumber ?c)),
            lpSerialNumber :=
              (if True
               then Some (take (unat (of_nat (length (certSerialNumber ?c)) :: DWORD))
                            (certSerialNumber ?c))
               else None),
            lpszIssuerName := Some ''Sample Code Signing CA'',
            lpszSubjectName := Some ''TheGreenBow Networks''\<rparr>), ())"
    by blast
  then have 2: "SD_GetAuthenticodeInformation ?P ?p ZeroMemory_SignInfo () =
     (Returns (True,
        \<lparr>lpszProgramName = None, lpszPublisherLink = None, lpszMoreInfoLink = None,
         cbSerialSize = 2, lpSerialNumber = Some [10, 11],
         lpszIssuerName = Some ''Sample Code Signing CA'',
         lpszSubjectName = Some ''TheGreenBow Networks''\<rparr>), ())"
    by (simp add: ZeroMemory_SignInfo_def)
  have mF: "mbstowcs_s_TRUNCATE failing_fetch MAX_PATH ?p = (0, widen ?p)"
    by code_simp
  have qF: "CryptQueryObject failing_fetch (widen ?p) () = (Some (1, 2), ())"
    and zF: "CryptMsgGetParam_size failing_fetch 2 () = (Some 64, ())"
    and aF: "LocalAlloc failing_fetch (unat (64 :: DWORD)) () = (True, ())"
    and dF: "CryptMsgGetParam_data failing_fetch 2 64 () = (Some ?si, ())"
    and cF: "CertFindCertificateInStore failing_fetch 1 (Issuer ?si) (SerialNumber ?si) () =
               (Some ?c, ())"
    by (simp_all add: failing_fetch_def platform_of_def signed_file_def)
  have gF: "GetProgAndPublisherInfo failing_fetch ?si ZeroMemory_SignInfo () =
              (ZeroMemory_SignInfo, ())"
    by code_simp
  note F = certificate_fields_not_atomic [OF mF qF zF aF dF gF cF]
  have l: "CertGetNameString failing_fetch ?c CERT_NAME_ISSUER_FLAG None () = ((32, []), ())"
    by (simp add: failing_fetch_def)
  have va: "VirtualAlloc failing_fetch (unat (32 :: DWORD) * sizeof_TCHAR) () = (True, ())"
    by (simp add: failing_fetch_def platform_of_def signed_file_def)
  have fe: "CertGetNameString failing_fetch ?c CERT_NAME_ISSUER_FLAG (Some 32) () = ((0, []), ())"
    by (simp add: failing_fetch_def)
  have nz: "(32 :: DWORD) \<noteq> 0"
    by simp
  note block = F [THEN conjunct2, THEN conjunct2, THEN conjunct2, THEN conjunct2,
      THEN conjunct2, THEN conjunct2, THEN conjunct2, rule_format, OF l,
      THEN conjunct2, THEN conjunct2, rule_format]
  have 3: "try_CertGetNameString failing_fetch ?c CERT_NAME_ISSUER_FLAG None () = (Some [], ())"
    by (rule block [OF conjI [OF nz conjI [OF va fe]]])
  from 1 2 3 show ?thesis
    by blast
qed

text \<open>
  Claim C5. The specification has \<^verbatim>\<open>tgb_is_signed\<close> return a boolean for every path, any
  extraction failure giving false. On a file whose signature verifies and whose signer
  certificate is not in the store of the message, the trust verification returns
  Success, the extraction reports success with a subject name that is \<^verbatim>\<open>NULL\<close>, and
  \<^verbatim>\<open>tgb_is_signed\<close> passes that \<^verbatim>\<open>NULL\<close> to \<^verbatim>\<open>_tcsncicmp\<close>: the call faults and returns
  no boolean.
\<close>

theorem tgb_is_signed_Fault:
  "SD_VerifyEmbeddedSignature (platform_of (signed_file\<lparr>signer_certificate := None\<rparr>))
     ''C:/vpn/plugin.dll'' () = (ERROR_SUCCESS, ()) \<and>
   SD_GetAuthenticodeInformation (platform_of (signed_file\<lparr>signer_certificate := None\<rparr>))
     ''C:/vpn/plugin.dll'' ZeroMemory_SignInfo () = (Returns (True, ZeroMemory_SignInfo), ()) \<and>
   lpszSubjectName ZeroMemory_SignInfo = None \<and>
   tgb_is_signed (recording (platform_of (signed_file\<lparr>signer_certificate := None\<rparr>)))
     (Some ''C:/vpn/plugin.dll'') ((), []) =
     (Fault, (),
      [Call_WinVerifyTrust (WinTrustData (widen ''C:/vpn/plugin.dll'') False),
       Call_CryptQueryObject (widen ''C:/vpn/plugin.dll''),
       Call_CryptMsgGetParam 2 None, Call_LocalAlloc 64, Call_CryptMsgGetParam 2 (Some 64),
       Call_CertFindCertificateInStore 1 [0x30, 0x0B] [0x0A, 0x0B]])"
  by code_simp

theorem GetProgAndPublisherInfo_never_fails_witness:
  "GetProgAndPublisherInfo (recording (platform_of signed_file)) (signer_info signed_file)
     ZeroMemory_SignInfo ((), []) = (ZeroMemory_SignInfo, (), []) \<and>
   pPublisherInfo (the (opus_info signed_file_with_opus)) = Some (SPC_OTHER_LINK_CHOICE 2) \<and>
   lpszPublisherLink (fst (GetProgAndPublisherInfo (platform_of signed_file_with_opus)
     (signer_info signed_file_with_opus) ZeroMemory_SignInfo ())) = None"
proof -
  let ?P = "platform_of signed_file"
  let ?O = "platform_of signed_file_with_opus"
  let ?a1 = "\<lparr>pszObjId = ''1.2.840.113549.1.9.3'', rgValue0 = [6, 1, 0 :: BYTE]\<rparr>"
  let ?a2 = "\<lparr>pszObjId = ''1.3.6.1.4.1.311.2.1.12'', rgValue0 = [0x30, 0 :: BYTE]\<rparr>"
  let ?oi = "\<lparr>pwszProgramName = Some (widen ''VPN Client''),
              pPublisherInfo = Some (SPC_OTHER_LINK_CHOICE 2),
              pMoreInfo = Some (SPC_URL_LINK_CHOICE (widen ''https://example.org''))\<rparr>"
  have absent: "\<forall>a\<in>set (AuthAttrs (signer_info signed_file)).
                  pszObjId a \<noteq> SPC_SP_OPUS_INFO_OBJID"
    by (simp add: signed_file_def SPC_SP_OPUS_INFO_OBJID_def)
  from GetProgAndPublisherInfo_never_fails [of "signer_info signed_file" ?P ZeroMemory_SignInfo "()" "[]"] absent
  have 1: "GetProgAndPublisherInfo (recording ?P) (signer_info signed_file)
             ZeroMemory_SignInfo ((), []) = (ZeroMemory_SignInfo, (), [])"
    by blast
  have attrs: "AuthAttrs (signer_info signed_file_with_opus) = [?a1] @ ?a2 # []"
    by (simp add: signed_file_with_opus_def)
  have pre: "\<forall>a\<in>set [?a1]. pszObjId a \<noteq> SPC_SP_OPUS_INFO_OBJID"
    by (simp add: SPC_SP_OPUS_INFO_OBJID_def)
  have here: "pszObjId ?a2 = SPC_SP_OPUS_INFO_OBJID"
    by (simp add: SPC_SP_OPUS_INFO_OBJID_def)
  have size: "CryptDecodeObject_size ?O (rgValue0 ?a2) () = (Some 48, ())"
    by (simp add: platform_of_def signed_file_with_opus_def)
  have alloc: "LocalAlloc ?O (unat (48 :: DWORD)) () = (True, ())"
    by (simp add: platform_of_def signed_file_with_opus_def signed_file_def)
  have data: "CryptDecodeObject_data ?O (rgValue0 ?a2) 48 () = (Some ?oi, ())"
    by (simp add: platform_of_def signed_file_with_opus_def)
  have tag: "pPublisherInfo ?oi = Some (SPC_OTHER_LINK_CHOICE 2)"
    by simp
  have tag': "pPublisherInfo (the (opus_info signed_file_with_opus)) = Some (SPC_OTHER_LINK_CHOICE 2)"
    by (simp add: signed_file_with_opus_def)
  from GetProgAndPublisherInfo_never_fails [of "signer_info signed_file_with_opus" ?O ZeroMemory_SignInfo "()" "[]"
      "[?a1]" ?a2 "[]" 48 "()" "()" ?oi "()" 2]
    attrs pre here size alloc data tag
  have 2: "lpszPublisherLink (fst (GetProgAndPublisherInfo ?O
     (signer_info signed_file_with_opus) ZeroMemory_SignInfo ())) = None"
    by blast
  from 1 tag' 2 show ?thesis
    by blast
qed

text \<open>
  On the platform with a commit limit, the answers about the file and the trust store do
  not depend on the world.
\<close>

lemma commit_limited_answers:
  "fst (WinVerifyTrust (commit_limited sc) d w) = fst (WinVerifyTrust (commit_limited sc) d v)"
  "fst (CryptQueryObject (commit_limited sc) f w) = fst (CryptQueryObject (commit_limited sc) f v)"
  "fst (CryptMsgGetParam_size (commit_limited sc) h w) =
     fst (CryptMsgGetParam_size (commit_limited sc) h v)"
  "fst (CryptMsgGetParam_data (commit_limited sc) h n w) =
     fst (CryptMsgGetParam_data (commit_limited sc) h n v)"
  "fst (CertFindCertificateInStore (commit_limited sc) h i sn w) =
     fst (CertFindCertificateInStore (commit_limited sc) h i sn v)"
  "fst (CertGetNameString (commit_limited sc) c fl cch w) =
     fst (CertGetNameString (commit_limited sc) c fl cch v)"
  by (simp_all add: commit_limited_def)

text \<open>
  Claim C8. The specification has two consecutive calls on the same unmodified file,
  with the trust store unchanged, return the same boolean. \<^verbatim>\<open>tgb_is_signed\<close> releases
  none of the buffers of \<^verbatim>\<open>SignInfo\<close>, while the other resources of the call are
  released in the \<^verbatim>\<open>__finally\<close> blocks. On a validly signed file of TheGreenBow, with 46
  bytes left to commit, the first call commits them all (2 for the serial number, 23 and
  21 for the names) and returns true; the second call, in the world the first one left,
  gets \<^verbatim>\<open>NULL\<close> for the serial number and faults.
\<close>

theorem tgb_is_signed_twice:
  "tgb_is_signed (commit_limited signed_file) (Some ''C:/vpn/plugin.dll'') 46 =
     (Returns (PyBool_FromLong True), 0) \<and>
   tgb_is_signed (commit_limited signed_file) (Some ''C:/vpn/plugin.dll'')
     (snd (tgb_is_signed (commit_limited signed_file) (Some ''C:/vpn/plugin.dll'') 46)) =
     (Fault, 0)"
  by code_simp

end
